theory Spec2Isabelle
  imports Main
begin

section \<open>Artifact end-points of the queue (src/artifacts.js)\<close>

text \<open>
  A shallow embedding of the five artifact handlers. JavaScript strings are byte lists,
  a \<^verbatim>\<open>Date\<close> is its \<^verbatim>\<open>getTime()\<close> (milliseconds, an integer), a property that may be
  \<^verbatim>\<open>undefined\<close> is an option, \<^verbatim>\<open>this\<close> and the time zone of the process are the record \<open>ctx\<close>, and the tables, the
  publisher and the monitor are fields of an explicit \<open>state\<close> that every handler
  returns next to its response. The route parameter \<^verbatim>\<open>runId\<close> is taken after
  \<^verbatim>\<open>parseInt(_, 10)\<close> as an integer, and \<^verbatim>\<open>input.expires\<close> after \<^verbatim>\<open>new Date(_)\<close> as a
  valid date: the request schema admits nothing else.

  A handler runs alone, from its first line to its answer: interleavings of concurrent
  requests are not modelled. The collaborators answer: the task table and the artifact
  table are maps, \<^verbatim>\<open>Artifact.create\<close> fails only when the key is taken, and the
  publisher and the monitor append to a log. Dates stay in the range where
  \<^verbatim>\<open>TimeClip\<close> is the identity.
\<close>

subsection \<open>Platform functions\<close>

type_synonym time = int

text \<open>\<^verbatim>\<open>/^public\//.test(name)\<close>\<close>

definition isPublic :: "string \<Rightarrow> bool" where
  "isPublic name = (take 7 name = ''public/'')"

text \<open>The decimal digits of a number, as \<^verbatim>\<open>Array.prototype.join\<close> renders an integer.\<close>

fun string_of_nat :: "nat \<Rightarrow> string" where
  "string_of_nat n =
     (if n < 10 then [''0123456789'' ! n]
      else string_of_nat (n div 10) @ [''0123456789'' ! (n mod 10)])"

declare string_of_nat.simps [simp del]

definition number_toString :: "int \<Rightarrow> string" where
  "number_toString i =
     (if i < 0 then ''-'' @ string_of_nat (nat (- i)) else string_of_nat (nat i))"

text \<open>\<^verbatim>\<open>[taskId, runId, name].join('/')\<close>\<close>

definition join_slash :: "string \<Rightarrow> int \<Rightarrow> string \<Rightarrow> string" where
  "join_slash taskId runId name = taskId @ ''/'' @ number_toString runId @ ''/'' @ name"

text \<open>
  \<^verbatim>\<open>String.prototype.toLowerCase\<close> on the ASCII letters; no character outside ASCII
  lower-cases to a letter of \<^verbatim>\<open>true\<close> or to \<^verbatim>\<open>1\<close>, the only strings the result is compared with.
\<close>

definition lower_char :: "char \<Rightarrow> char" where
  "lower_char c =
     (let n = (of_char c :: nat) in if 65 \<le> n \<and> n \<le> 90 then char_of (n + 32) else c)"

definition toLowerCase :: "string \<Rightarrow> string" where
  "toLowerCase s = map lower_char s"

text \<open>
  \<^verbatim>\<open>encodeURIComponent\<close> on the UTF-8 bytes of a string: letters, digits and
  \<^verbatim>\<open>- _ . ! ~ * ' ( )\<close> stay, every other byte becomes \<^verbatim>\<open>%XX\<close> in upper-case hexadecimal.
\<close>

definition unreserved :: "char \<Rightarrow> bool" where
  "unreserved c =
     (let n = (of_char c :: nat) in
        (65 \<le> n \<and> n \<le> 90) \<or> (97 \<le> n \<and> n \<le> 122) \<or> (48 \<le> n \<and> n \<le> 57) \<or>
        n = 39 \<or> c \<in> set ''-_.!~*()'')"

definition hex_digit :: "nat \<Rightarrow> char" where
  "hex_digit k = ''0123456789ABCDEF'' ! k"

definition encode_char :: "char \<Rightarrow> string" where
  "encode_char c =
     (if unreserved c then [c]
      else [CHR ''%'', hex_digit ((of_char c :: nat) div 16), hex_digit ((of_char c :: nat) mod 16)])"

definition encodeURIComponent :: "string \<Rightarrow> string" where
  "encodeURIComponent s = concat (map encode_char s)"

text \<open>
  \<^verbatim>\<open>url.format\<close> of Node on an object that has only \<^verbatim>\<open>protocol\<close>, \<^verbatim>\<open>host\<close> and
  \<^verbatim>\<open>pathname\<close>: a colon is added to a protocol that lacks one, \<^verbatim>\<open>?\<close> and \<^verbatim>\<open>#\<close> of the
  path are percent-escaped, and a protocol of the slashed kind with a non-empty host
  gets \<^verbatim>\<open>//\<close> before the host and a \<^verbatim>\<open>/\<close> before a path that does not start with one.
\<close>

definition escape_pathname :: "string \<Rightarrow> string" where
  "escape_pathname p =
     concat (map (\<lambda>c. if c = CHR ''?'' then ''%3F'' else if c = CHR ''#'' then ''%23'' else [c]) p)"

definition slashedProtocol :: "string \<Rightarrow> bool" where
  "slashedProtocol p = (p \<in> set [''http:'', ''https:'', ''ftp:'', ''gopher:'', ''file:''])"

definition urllib_format :: "string \<Rightarrow> string \<Rightarrow> string \<Rightarrow> string" where
  "urllib_format protocol host pathname =
     (let protocol' = (if protocol \<noteq> [] \<and> last protocol \<noteq> CHR '':'' then protocol @ '':'' else protocol);
          pathname' = escape_pathname pathname
      in if (protocol' = [] \<or> slashedProtocol protocol') \<and> host \<noteq> []
         then protocol' @ ''//'' @ host @
              (if pathname' \<noteq> [] \<and> hd pathname' \<noteq> CHR ''/'' then ''/'' @ pathname' else pathname')
         else protocol' @ host @ pathname')"

subsection \<open>Entities\<close>

text \<open>The adapters of the object stores: their identifier and their signing functions.\<close>

record s3bucket =
  bucket :: string
  createPutUrl :: "string option \<Rightarrow> string \<Rightarrow> nat \<Rightarrow> string"
  createGetUrl :: "string option \<Rightarrow> bool \<Rightarrow> string"
  createSignedGetUrl :: "string option \<Rightarrow> nat \<Rightarrow> string"

record blobstore =
  container :: string
  generateWriteSAS :: "string option \<Rightarrow> time \<Rightarrow> string"
  createSignedGetUrl :: "string option \<Rightarrow> time \<Rightarrow> string"

record run =
  state :: string
  workerGroup :: string
  workerId :: string
  resolved :: "time option"

record task =
  expires :: time
  routes :: "string list"
  runs :: "run list"
  status :: string

text \<open>The request body \<^verbatim>\<open>req.body\<close> of createArtifact.\<close>

record input =
  storageType :: string
  contentType :: "string option"
  expires :: time
  url :: "string option"
  message :: "string option"
  reason :: "string option"

text \<open>The \<^verbatim>\<open>details\<close> object of an artifact: each property is present or not.\<close>

record details =
  bucket :: "string option"
  prefix :: "string option"
  container :: "string option"
  path :: "string option"
  url :: "string option"
  message :: "string option"
  reason :: "string option"

definition no_details :: details where
  "no_details = \<lparr>bucket = None, prefix = None, container = None, path = None,
                  url = None, message = None, reason = None\<rparr>"

record artifact =
  taskId :: string
  runId :: int
  name :: string
  storageType :: string
  contentType :: string
  details :: details
  expires :: time

text \<open>The parameter bags given to \<^verbatim>\<open>req.satisfies\<close>.\<close>

datatype auth_params =
    CreateParams string int string string string
  | GetParams string

record req =
  params_taskId :: string
  params_runId :: int
  params_name :: string
  body :: input
  skip_cache_header :: "string option"
  query_continuationToken :: "string option"
  query_limit :: "nat option"
  satisfies :: "auth_params \<Rightarrow> bool"

text \<open>
  Modelled from the spec: \<^verbatim>\<open>Artifact.prototype.json\<close> is declared with the entity,
  outside this file; it gives the storage type, the name, the expiration and the
  content type.
\<close>

type_synonym artifact_json = "string \<times> string \<times> time \<times> string"

definition json :: "artifact \<Rightarrow> artifact_json" where
  "json a = (artifact.storageType a, name a, artifact.expires a, artifact.contentType a)"

subsection \<open>The context \<^verbatim>\<open>this\<close> and the state\<close>

type_synonym key = "string \<times> int \<times> string"

type_synonym store = "key \<Rightarrow> artifact option"

record ctx =
  publicBucket :: s3bucket
  privateBucket :: s3bucket
  blobStore :: blobstore
  artifactRegion :: string
  cloudMirrorHost :: string
  getRegion :: "req \<Rightarrow> string option"
  query :: "store \<Rightarrow> string \<Rightarrow> int \<Rightarrow> string option \<Rightarrow> nat \<Rightarrow> artifact list \<times> string option"
  localTZA :: "time \<Rightarrow> bool \<Rightarrow> int"

text \<open>
  The last field is the time zone of the process, as ECMAScript's \<^verbatim>\<open>LocalTZA(t, isUTC)\<close>:
  the offset of local time from UTC in milliseconds, at the UTC time \<open>t\<close> when the flag
  is true and at the local time \<open>t\<close> when it is false. \<open>LocalTime\<close> and \<open>UTC\<close> are the
  two conversions of the language. \<^verbatim>\<open>d.setMinutes(d.getMinutes() + k)\<close> reads the local
  time of \<open>d\<close>, replaces its minutes, which moves it by \<open>k\<close> minutes, and converts the
  result back; where the offset differs between the two conversions the date does not
  move by \<open>k\<close> minutes.
\<close>

definition LocalTime :: "ctx \<Rightarrow> time \<Rightarrow> time" where
  "LocalTime c t = t + localTZA c t True"

definition UTC :: "ctx \<Rightarrow> time \<Rightarrow> time" where
  "UTC c t = t - localTZA c t False"

definition setMinutes_by :: "ctx \<Rightarrow> time \<Rightarrow> int \<Rightarrow> time" where
  "setMinutes_by c t k = UTC c (LocalTime c t + k * 60 * 1000)"

text \<open>The payload of \<^verbatim>\<open>publisher.artifactCreated\<close>: status, artifact, workerGroup, workerId, runId.\<close>

datatype created = ArtifactCreated string artifact_json string string int

record state =
  Task :: "string \<Rightarrow> task option"
  Artifact :: store
  published :: "(created \<times> string list) list"
  reported :: "(string \<times> artifact_json) list"

text \<open>The three readings of the clock in createArtifact, in the order they are taken.\<close>

record clock =
  now0 :: time
  now1 :: time
  now2 :: time

subsection \<open>Responses\<close>

datatype error_details =
    Empty
  | TaskExpires time time
  | Status string
  | OriginalArtifact string string time
  | TaskId string
  | TaskRun string int string

datatype reply_body =
    S3Reply string time string
  | AzureReply string time string
  | PlainReply string
  | ListReply "artifact_json list" "string option"

datatype js_error =
    Error string
  | TypeError string
  | ReferenceError string
  | AssertionError string

text \<open>
  \<open>Denied\<close> is the handler returning after \<^verbatim>\<open>req.satisfies\<close> was false (it has sent the
  rejection); \<open>Throw\<close> is an exception leaving the handler.
\<close>

datatype response =
    ReportError string string error_details
  | Reply reply_body
  | Redirect nat "string option"
  | StatusJson nat "string option" "string option"
  | Denied
  | Throw js_error

subsection \<open>createArtifact\<close>

text \<open>\<^verbatim>\<open>task.runs[runId]\<close>: \<^verbatim>\<open>undefined\<close> outside the array.\<close>

definition run_at :: "task \<Rightarrow> int \<Rightarrow> run option" where
  "run_at t i = (if 0 \<le> i \<and> i < int (length (runs t)) then Some (runs t ! nat i) else None)"

definition task_expires_message :: string where
  "task_expires_message =
     ''Artifact expires ({{expires}}) after the task expiration '' @
     ''{{taskExpires}} (task.expires < expires) - this is now allowed, '' @
     ''artifacts must expire before the task they belong to''"

definition resolved_message :: string where
  "resolved_message =
     ''Artifacts cannot be created for a task after it is '' @
     ''resolved, unless it is resolved 'exception', and even '' @
     ''in this case only up to 25 min past resolution.'' @
     ''This to ensure that artifacts have been uploaded before '' @
     ''a task is 'completed' and output is consumed by a '' @
     ''dependent task'' @ [CHR 0x0A, CHR 0x0A] @ ''Task status: {{status}}''"

definition exists_type_message :: string where
  "exists_type_message =
     ''Artifact already exists, with different type or later expiration'' @
     [CHR 0x0A, CHR 0x0A] @ ''Existing artifact information: {{originalArtifact}}''"

definition exists_details_message :: string where
  "exists_details_message =
     ''Artifact already exists, with different contentType or error message'' @
     [CHR 0x0A, CHR 0x0A] @ ''Existing artifact information: {{originalArtifact}}''"

text \<open>
  The run check: \<open>allow\<close> is the variable of that name, \<open>uploadable\<close> the negation of
  the condition under which the handler reports the conflict. A missing \<^verbatim>\<open>resolved\<close>
  makes the date invalid, and every comparison with its time false.
\<close>

definition allow :: "time \<Rightarrow> run \<Rightarrow> bool" where
  "allow now r =
     (if state r = ''exception''
      then (case resolved r of None \<Rightarrow> False | Some t \<Rightarrow> t > now - 25 * 60 * 1000)
      else False)"

definition uploadable :: "time \<Rightarrow> run \<Rightarrow> bool" where
  "uploadable now r = (if state r \<noteq> ''running'' then allow now r else True)"

text \<open>
  The validations from the expiration test to the run check, in the order of the
  handler; \<open>Inl\<close> is the response of the first one that fails.
\<close>

definition preflight :: "ctx \<Rightarrow> clock \<Rightarrow> req \<Rightarrow> state \<Rightarrow> response + task \<times> run" where
  "preflight c clk rq s =
     (let taskId = params_taskId rq; runId = params_runId rq; name = params_name rq;
          expires = input.expires (body rq);
          past = setMinutes_by c (now0 clk) (- 15)
      in
      if expires < past
      then Inl (ReportError ''InputError'' ''Expires must be in the future'' Empty)
      else
        (case Task s taskId of
           None \<Rightarrow> Inl (ReportError ''InputError'' ''Task not found'' Empty)
         | Some t \<Rightarrow>
             (case run_at t runId of
                None \<Rightarrow> Inl (ReportError ''InputError'' ''Run not found'' Empty)
              | Some r \<Rightarrow>
                  if \<not> satisfies rq (CreateParams taskId runId (workerGroup r) (workerId r) name)
                  then Inl Denied
                  else if expires > task.expires t
                  then Inl (ReportError ''InputError'' task_expires_message
                              (TaskExpires (task.expires t) expires))
                  else if \<not> uploadable (now1 clk) r
                  then Inl (ReportError ''RequestConflict'' resolved_message (Status (status t)))
                  else Inr (t, r))))"

text \<open>The \<^verbatim>\<open>switch (storageType)\<close> that fills \<^verbatim>\<open>details\<close>.\<close>

definition construct_details :: "ctx \<Rightarrow> req \<Rightarrow> js_error + details" where
  "construct_details c rq =
     (let taskId = params_taskId rq; runId = params_runId rq; name = params_name rq;
          inp = body rq;
          storageType = input.storageType inp
      in
      if storageType = ''s3''
      then Inr (no_details
             \<lparr>bucket := Some (if isPublic name then s3bucket.bucket (publicBucket c)
                              else s3bucket.bucket (privateBucket c)),
              prefix := Some (join_slash taskId runId name)\<rparr>)
      else if storageType = ''azure''
      then Inr (no_details
             \<lparr>container := Some (blobstore.container (blobStore c)),
              path := Some (join_slash taskId runId name)\<rparr>)
      else if storageType = ''reference''
      then Inr (no_details \<lparr>url := input.url inp\<rparr>)
      else if storageType = ''error''
      then Inr (no_details \<lparr>message := input.message inp, reason := input.reason inp\<rparr>)
      else Inl (Error (''Unknown storageType: '' @ storageType)))"

text \<open>
  \<^verbatim>\<open>Artifact.create\<close> and, when the key exists already, the branch that loads the
  entity, compares it and modifies it. \<open>Inl\<close> is a reported conflict; \<open>Inr\<close> carries
  the entity as the handler holds it afterwards and the new table.
\<close>

definition persist :: "artifact \<Rightarrow> state \<Rightarrow> response + artifact \<times> state" where
  "persist new s =
     (let k = (taskId new, runId new, name new) in
      case Artifact s k of
        None \<Rightarrow> Inr (new, s\<lparr>Artifact := (Artifact s)(k \<mapsto> new)\<rparr>)
      | Some a \<Rightarrow>
          if artifact.storageType a \<noteq> artifact.storageType new \<or>
             artifact.contentType a \<noteq> artifact.contentType new \<or>
             artifact.expires a > artifact.expires new
          then Inl (ReportError ''RequestConflict'' exists_type_message
                      (OriginalArtifact (artifact.storageType a) (artifact.contentType a)
                         (artifact.expires a)))
          else if artifact.storageType new \<noteq> ''reference'' \<and> details a \<noteq> details new
          then Inl (ReportError ''RequestConflict'' exists_details_message
                      (OriginalArtifact (artifact.storageType a) (artifact.contentType a)
                         (artifact.expires a)))
          else
            (let a' = a\<lparr>artifact.expires := artifact.expires new, details := details new\<rparr>
             in Inr (a', s\<lparr>Artifact := (Artifact s)(k \<mapsto> a')\<rparr>)))"

definition artifactCreated :: "created \<Rightarrow> string list \<Rightarrow> state \<Rightarrow> state" where
  "artifactCreated m rs s = s\<lparr>published := published s @ [(m, rs)]\<rparr>"

text \<open>The two comparisons that choose the bucket object of the reply; \<open>None\<close> is \<^verbatim>\<open>null\<close>.\<close>

definition select_bucket :: "ctx \<Rightarrow> artifact \<Rightarrow> s3bucket option" where
  "select_bucket c a =
     (let b0 = None;
          b1 = (if details.bucket (details a) = Some (s3bucket.bucket (publicBucket c))
                then Some (publicBucket c) else b0);
          b2 = (if details.bucket (details a) = Some (s3bucket.bucket (privateBucket c))
                then Some (privateBucket c) else b1)
      in b2)"

text \<open>The \<^verbatim>\<open>switch (artifact.storageType)\<close> that answers; \<open>st\<close> is the storage type of the input.\<close>

definition create_reply :: "ctx \<Rightarrow> time \<Rightarrow> string \<Rightarrow> artifact \<Rightarrow> response" where
  "create_reply c now st a =
     (if artifact.storageType a = ''s3''
      then (let expiry = now + 30 * 60 * 1000 in
            case select_bucket c a of
              None \<Rightarrow> Throw (TypeError ''Cannot read property 'createPutUrl' of null'')
            | Some b \<Rightarrow>
                Reply (S3Reply (artifact.contentType a) expiry
                         (createPutUrl b (prefix (details a)) (artifact.contentType a) (30 * 60 + 10))))
      else if artifact.storageType a = ''azure''
      then (let expiry = now + 30 * 60 * 1000 in
            Reply (AzureReply (artifact.contentType a) expiry
                     (generateWriteSAS (blobStore c) (path (details a)) expiry)))
      else if artifact.storageType a = ''reference'' \<or> artifact.storageType a = ''error''
      then Reply (PlainReply st)
      else Throw (Error (''Unknown storageType: '' @ artifact.storageType a)))"

text \<open>\<^verbatim>\<open>input.contentType || 'application/json'\<close>\<close>

definition contentType_of :: "input \<Rightarrow> string" where
  "contentType_of inp =
     (case input.contentType inp of
        None \<Rightarrow> ''application/json''
      | Some ct \<Rightarrow> if ct = [] then ''application/json'' else ct)"

text \<open>The properties given to \<^verbatim>\<open>Artifact.create\<close>.\<close>

definition properties :: "req \<Rightarrow> details \<Rightarrow> artifact" where
  "properties rq d =
     \<lparr>taskId = params_taskId rq, runId = params_runId rq, name = params_name rq,
      storageType = input.storageType (body rq), contentType = contentType_of (body rq),
      details = d, expires = input.expires (body rq)\<rparr>"

definition createArtifact :: "ctx \<Rightarrow> clock \<Rightarrow> req \<Rightarrow> state \<Rightarrow> response \<times> state" where
  "createArtifact c clk rq s =
     (case preflight c clk rq s of
        Inl r \<Rightarrow> (r, s)
      | Inr (t, r) \<Rightarrow>
          (case construct_details c rq of
             Inl e \<Rightarrow> (Throw e, s)
           | Inr d \<Rightarrow>
               (case persist (properties rq d) s of
                  Inl cf \<Rightarrow> (cf, s)
                | Inr (a, s') \<Rightarrow>
                    (let s'' = artifactCreated
                                 (ArtifactCreated (status t) (json a) (workerGroup r) (workerId r)
                                    (params_runId rq))
                                 (routes t) s'
                     in (create_reply c (now2 clk) (input.storageType (body rq)) a, s'')))))"

subsection \<open>replyWithArtifact and the get handlers\<close>

text \<open>\<^verbatim>\<open>!region\<close>: no region, or the empty string.\<close>

definition no_region :: "string option \<Rightarrow> bool" where
  "no_region g = (case g of None \<Rightarrow> True | Some r \<Rightarrow> r = [])"

text \<open>\<^verbatim>\<open>(req.headers['x-taskcluster-skip-cache'] || '').toLowerCase()\<close>\<close>

definition skipCacheHeader :: "req \<Rightarrow> string" where
  "skipCacheHeader rq = toLowerCase (case skip_cache_header rq of None \<Rightarrow> [] | Some h \<Rightarrow> h)"

text \<open>The path \<^verbatim>\<open>['v1', 'redirect', 's3', region, encodeURIComponent(url)].join('/')\<close>.\<close>

definition cloudMirrorPath :: "string \<Rightarrow> string \<Rightarrow> string" where
  "cloudMirrorPath region canonicalArtifactUrl =
     ''v1'' @ ''/'' @ ''redirect'' @ ''/'' @ ''s3'' @ ''/'' @ region @ ''/'' @
     encodeURIComponent canonicalArtifactUrl"

text \<open>The url of an artifact of the public bucket, by region and header.\<close>

definition public_url :: "ctx \<Rightarrow> req \<Rightarrow> artifact \<Rightarrow> string" where
  "public_url c rq a =
     (let region = getRegion c rq;
          prefix = details.prefix (details a);
          skipCacheHeader = skipCacheHeader rq
      in
      if no_region region
      then createGetUrl (publicBucket c) prefix False
      else if skipCacheHeader = ''true'' \<or> skipCacheHeader = ''1''
      then createGetUrl (publicBucket c) prefix False
      else if Some (artifactRegion c) = region
      then createGetUrl (publicBucket c) prefix True
      else
        (let canonicalArtifactUrl = createGetUrl (publicBucket c) prefix True
         in urllib_format ''https:'' (cloudMirrorHost c)
              (cloudMirrorPath (the region) canonicalArtifactUrl)))"

text \<open>\<^verbatim>\<open>assert(url, ...)\<close> and the redirect: \<^verbatim>\<open>null\<close> and the empty string fail the assertion.\<close>

definition assert_redirect :: "string option \<Rightarrow> response" where
  "assert_redirect u =
     (case u of
        None \<Rightarrow> Throw (AssertionError ''Url should have been constructed!'')
      | Some v \<Rightarrow>
          if v = [] then Throw (AssertionError ''Url should have been constructed!'')
          else Redirect 303 (Some v))"

text \<open>
  \<open>now\<close> is the clock of the azure branch. The last line of the function names
  \<^verbatim>\<open>artifacts\<close>, which no scope of the module declares: evaluating it is a
  \<^verbatim>\<open>ReferenceError\<close>, raised before the error object exists and before the monitor is called.
\<close>

definition replyWithArtifact ::
  "ctx \<Rightarrow> time \<Rightarrow> string \<Rightarrow> int \<Rightarrow> string \<Rightarrow> req \<Rightarrow> state \<Rightarrow> response \<times> state" where
  "replyWithArtifact c now tid rid nm rq s =
     (case Artifact s (tid, rid, nm) of
        None \<Rightarrow> (ReportError ''ResourceNotFound'' ''Artifact not found'' Empty, s)
      | Some a \<Rightarrow>
          if artifact.storageType a = ''s3''
          then
            (let prefix = details.prefix (details a);
                 bucket = details.bucket (details a);
                 url = (if bucket = Some (s3bucket.bucket (publicBucket c))
                        then Some (public_url c rq a)
                        else if bucket = Some (s3bucket.bucket (privateBucket c))
                        then Some (s3bucket.createSignedGetUrl (privateBucket c) prefix (30 * 60))
                        else None)
             in (assert_redirect url, s))
          else if artifact.storageType a = ''azure''
          then
            (let s' = (if details.container (details a) \<noteq> Some (blobstore.container (blobStore c))
                       then s\<lparr>reported := reported s @
                              [(''Unknown container: '' @
                                (case details.container (details a) of
                                   None \<Rightarrow> ''undefined'' | Some x \<Rightarrow> x) @
                                '' for artifact'', json a)]\<rparr>
                       else s);
                 expiry = setMinutes_by c now 30
             in (Redirect 303
                   (Some (blobstore.createSignedGetUrl (blobStore c) (path (details a)) expiry)), s'))
          else if artifact.storageType a = ''reference''
          then (Redirect 303 (details.url (details a)), s)
          else if artifact.storageType a = ''error''
          then (StatusJson 403 (details.reason (details a)) (details.message (details a)), s)
          else (Throw (ReferenceError ''artifacts is not defined''), s))"

definition getArtifact :: "ctx \<Rightarrow> time \<Rightarrow> req \<Rightarrow> state \<Rightarrow> response \<times> state" where
  "getArtifact c now rq s =
     (let taskId = params_taskId rq; runId = params_runId rq; name = params_name rq in
      if \<not> isPublic name \<and> \<not> satisfies rq (GetParams name) then (Denied, s)
      else replyWithArtifact c now taskId runId name rq s)"

definition getLatestArtifact :: "ctx \<Rightarrow> time \<Rightarrow> req \<Rightarrow> state \<Rightarrow> response \<times> state" where
  "getLatestArtifact c now rq s =
     (let taskId = params_taskId rq; name = params_name rq in
      if \<not> isPublic name \<and> \<not> satisfies rq (GetParams name) then (Denied, s)
      else
        (case Task s taskId of
           None \<Rightarrow> (ReportError ''ResourceNotFound'' ''Task not found'' Empty, s)
         | Some t \<Rightarrow>
             if length (runs t) = 0
             then (ReportError ''ResourceNotFound'' ''Task doesn't have any runs'' Empty, s)
             else
               (let runId = int (length (runs t)) - 1
                in replyWithArtifact c now taskId runId name rq s)))"

subsection \<open>The list handlers\<close>

text \<open>The answer of both list handlers from a page of the table.\<close>

definition list_reply :: "artifact list \<times> string option \<Rightarrow> response" where
  "list_reply page =
     Reply (ListReply (map json (fst page))
              (case snd page of None \<Rightarrow> None | Some k \<Rightarrow> if k = [] then None else Some k))"

definition continuation_of :: "req \<Rightarrow> string option" where
  "continuation_of rq =
     (case query_continuationToken rq of None \<Rightarrow> None | Some k \<Rightarrow> if k = [] then None else Some k)"

definition limit_of :: "req \<Rightarrow> nat" where
  "limit_of rq = (case query_limit rq of None \<Rightarrow> 1000 | Some n \<Rightarrow> n)"

definition listArtifacts :: "ctx \<Rightarrow> req \<Rightarrow> state \<Rightarrow> response \<times> state" where
  "listArtifacts c rq s =
     (let taskId = params_taskId rq; runId = params_runId rq;
          continuation = continuation_of rq; limit = limit_of rq;
          artifacts = query c (Artifact s) taskId runId continuation limit
      in
      case Task s taskId of
        None \<Rightarrow>
          (ReportError ''ResourceNotFound'' ''No task with taskId: {{taskId}} found'' (TaskId taskId), s)
      | Some t \<Rightarrow>
          (case run_at t runId of
             None \<Rightarrow>
               (ReportError ''ResourceNotFound''
                  (''Task with taskId: {{taskId}} run with runId: {{runId}}'' @ [CHR 0x0A] @
                   ''task status: {{status}}'')
                  (TaskRun taskId runId (status t)), s)
           | Some r \<Rightarrow> (list_reply artifacts, s)))"

definition listLatestArtifacts :: "ctx \<Rightarrow> req \<Rightarrow> state \<Rightarrow> response \<times> state" where
  "listLatestArtifacts c rq s =
     (let taskId = params_taskId rq;
          continuation = continuation_of rq; limit = limit_of rq
      in
      case Task s taskId of
        None \<Rightarrow>
          (ReportError ''ResourceNotFound'' ''No task with taskId: {{taskId}} found'' (TaskId taskId), s)
      | Some t \<Rightarrow>
          if length (runs t) = 0
          then (ReportError ''ResourceNotFound''
                  ''Task with taskId: {{taskId}} does not have any runs'' (TaskId taskId), s)
          else
            (let runId = int (length (runs t)) - 1;
                 artifacts = query c (Artifact s) taskId runId continuation limit
             in (list_reply artifacts, s)))"

subsection \<open>A deployment and a task, for concrete runs\<close>

definition url_key :: "string option \<Rightarrow> string" where
  "url_key p = (case p of None \<Rightarrow> ''undefined'' | Some x \<Rightarrow> x)"

definition ex_public :: s3bucket where
  "ex_public =
     \<lparr>s3bucket.bucket = ''pub'',
      createPutUrl = (\<lambda>p ct e. ''https://pub.s3/'' @ url_key p @ ''?put''),
      createGetUrl = (\<lambda>p same. (if same then ''https://pub.s3/'' else ''https://cdn/'') @ url_key p),
      s3bucket.createSignedGetUrl = (\<lambda>p e. ''https://pub.s3/'' @ url_key p @ ''?sig'')\<rparr>"

definition ex_private :: s3bucket where
  "ex_private =
     \<lparr>s3bucket.bucket = ''priv'',
      createPutUrl = (\<lambda>p ct e. ''https://priv.s3/'' @ url_key p @ ''?put''),
      createGetUrl = (\<lambda>p same. ''https://priv.s3/'' @ url_key p),
      s3bucket.createSignedGetUrl = (\<lambda>p e. ''https://priv.s3/'' @ url_key p @ ''?sig'')\<rparr>"

definition ex_blob :: blobstore where
  "ex_blob =
     \<lparr>blobstore.container = ''artifacts'',
      generateWriteSAS = (\<lambda>p e. ''https://blob/'' @ url_key p @ ''?sas''),
      blobstore.createSignedGetUrl = (\<lambda>p e. ''https://blob/'' @ url_key p @ ''?sig'')\<rparr>"

definition ex_ctx :: ctx where
  "ex_ctx =
     \<lparr>publicBucket = ex_public, privateBucket = ex_private, blobStore = ex_blob,
      artifactRegion = ''us-west-2'', cloudMirrorHost = ''mirror.test'',
      getRegion = (\<lambda>rq. None),
      query = (\<lambda>st tid rid k n. ([], None)),
      localTZA = (\<lambda>t isUTC. 0)\<rparr>"

text \<open>
  The same deployment in a zone one hour ahead of UTC that moves to two hours ahead at
  the UTC time 1699999400000, ten minutes before the first clock reading of \<open>ex_clock\<close>
  below: local times before 1700006600000 are read with the earlier offset.
\<close>

definition ex_dst_ctx :: ctx where
  "ex_dst_ctx =
     ex_ctx\<lparr>localTZA :=
       (\<lambda>t isUTC. if isUTC then (if t < 1699999400000 then 3600000 else 7200000)
                  else (if t < 1700006600000 then 3600000 else 7200000))\<rparr>"

definition ex_run :: run where
  "ex_run = \<lparr>state = ''running'', workerGroup = ''g'', workerId = ''w'', resolved = None\<rparr>"

definition ex_task :: task where
  "ex_task = \<lparr>task.expires = 1900000000000, routes = [''route''], runs = [ex_run],
              status = ''status-of-T1''\<rparr>"

definition ex_clock :: clock where
  "ex_clock = \<lparr>now0 = 1700000000000, now1 = 1700000000001, now2 = 1700000000002\<rparr>"

definition ex_input :: input where
  "ex_input = \<lparr>input.storageType = ''s3'', input.contentType = Some ''text/plain'',
               input.expires = 1800000000000, input.url = None, input.message = None,
               input.reason = None\<rparr>"

definition ex_req :: req where
  "ex_req = \<lparr>params_taskId = ''T1'', params_runId = 0, params_name = ''public/log.txt'',
             body = ex_input, skip_cache_header = None, query_continuationToken = None,
             query_limit = None, satisfies = (\<lambda>p. True)\<rparr>"

definition ex_state :: state where
  "ex_state = \<lparr>Task = [''T1'' \<mapsto> ex_task], Artifact = Map.empty, published = [], reported = []\<rparr>"

definition ex_s3 :: artifact where
  "ex_s3 = \<lparr>taskId = ''T1'', runId = 0, name = ''public/log.txt'', storageType = ''s3'',
            contentType = ''text/plain'',
            details = no_details\<lparr>bucket := Some ''pub'', prefix := Some ''T1/0/public/log.txt''\<rparr>,
            expires = 1800000000000\<rparr>"

definition ex_stored :: state where
  "ex_stored = ex_state\<lparr>Artifact := [(''T1'', 0, ''public/log.txt'') \<mapsto> ex_s3]\<rparr>"

definition ex_task_with :: "run \<Rightarrow> task" where
  "ex_task_with r = ex_task\<lparr>runs := [r]\<rparr>"

definition ex_state_with :: "run \<Rightarrow> state" where
  "ex_state_with r = ex_state\<lparr>Task := [''T1'' \<mapsto> ex_task_with r]\<rparr>"

definition ex_exception :: "time \<Rightarrow> run" where
  "ex_exception t = ex_run\<lparr>state := ''exception'', resolved := Some t\<rparr>"

definition ex_reference :: artifact where
  "ex_reference = \<lparr>taskId = ''T1'', runId = 0, name = ''public/link'', storageType = ''reference'',
                   contentType = ''text/plain'', details = no_details\<lparr>url := Some ''http://a.test/''\<rparr>,
                   expires = 1800000000000\<rparr>"

definition ex_ref_req :: req where
  "ex_ref_req = ex_req\<lparr>params_name := ''public/link'',
                   body := ex_input\<lparr>input.storageType := ''reference'',
                                   input.url := Some ''http://b.test/''\<rparr>\<rparr>"

definition ex_ref_stored :: state where
  "ex_ref_stored = ex_state\<lparr>Artifact := [(''T1'', 0, ''public/link'') \<mapsto> ex_reference]\<rparr>"

definition ex_ctx_region :: "string option \<Rightarrow> ctx" where
  "ex_ctx_region g = ex_ctx\<lparr>getRegion := (\<lambda>rq. g)\<rparr>"

definition ex_error :: artifact where
  "ex_error = \<lparr>taskId = ''T1'', runId = 0, name = ''public/missing.txt'', storageType = ''error'',
               contentType = ''application/json'',
               details = no_details\<lparr>message := Some ''m'', reason := Some ''r''\<rparr>,
               expires = 1800000000000\<rparr>"

definition ex_unknown :: artifact where
  "ex_unknown = ex_error\<lparr>storageType := ''ftp''\<rparr>"

definition ex_get_req :: req where
  "ex_get_req = ex_req\<lparr>params_name := ''public/missing.txt''\<rparr>"

definition ex_stored_as :: "artifact \<Rightarrow> state" where
  "ex_stored_as a = ex_state\<lparr>Artifact := [(''T1'', 0, ''public/missing.txt'') \<mapsto> a]\<rparr>"

subsection \<open>Notions the properties are stated with\<close>

text \<open>The handler answered through \<^verbatim>\<open>res.reply\<close>.\<close>

definition is_reply :: "response \<Rightarrow> bool" where
  "is_reply r = (case r of Reply b \<Rightarrow> True | _ \<Rightarrow> False)"

text \<open>
  Every s3 artifact of a table lies in the bucket its name selects, under the prefix
  made of its key.
\<close>

definition bucket_invariant :: "ctx \<Rightarrow> store \<Rightarrow> bool" where
  "bucket_invariant c st =
     (\<forall>tid rid nm a. st (tid, rid, nm) = Some a \<longrightarrow> artifact.storageType a = ''s3'' \<longrightarrow>
        details.bucket (details a) =
          Some (if isPublic nm then s3bucket.bucket (publicBucket c)
                else s3bucket.bucket (privateBucket c)) \<and>
        details.prefix (details a) = Some (join_slash tid rid nm))"

text \<open>
  A history of createArtifact calls on one artifact table, each with its own clock and
  request, and with the task table as it is at that moment.
\<close>

fun createArtifact_calls :: "ctx \<Rightarrow> (clock \<times> req \<times> (string \<Rightarrow> task option)) list \<Rightarrow> state \<Rightarrow> state" where
  "createArtifact_calls c [] s = s"
| "createArtifact_calls c ((clk, rq, tasks) # cs) s =
     createArtifact_calls c cs (snd (createArtifact c clk rq (s\<lparr>Task := tasks\<rparr>)))"

section \<open>Properties\<close>

lemmas ex_defs = ex_dst_ctx_def ex_public_def ex_private_def ex_blob_def ex_ctx_def ex_run_def ex_task_def
  ex_clock_def ex_input_def ex_req_def ex_state_def url_key_def ex_task_with_def
  ex_state_with_def ex_exception_def ex_s3_def ex_stored_def ex_reference_def ex_ref_req_def
  ex_ref_stored_def ex_ctx_region_def ex_error_def ex_unknown_def ex_get_req_def ex_stored_as_def

lemmas eval_defs = preflight_def setMinutes_by_def LocalTime_def UTC_def construct_details_def run_at_def uploadable_def allow_def
  isPublic_def join_slash_def number_toString_def string_of_nat.simps no_details_def
  contentType_of_def

lemmas url_defs = skipCacheHeader_def toLowerCase_def lower_char_def no_region_def
  encodeURIComponent_def encode_char_def unreserved_def hex_digit_def isPublic_def
  char_of_eq_iff

subsection \<open>The validations of createArtifact\<close>




subsection \<open>The bucket of the reply\<close>

lemma select_bucket_cases:
  "select_bucket c a =
     (if details.bucket (details a) = Some (s3bucket.bucket (privateBucket c)) then Some (privateBucket c)
      else if details.bucket (details a) = Some (s3bucket.bucket (publicBucket c)) then Some (publicBucket c)
      else None)"
  by (simp add: select_bucket_def)

text \<open>
  Claim C10. In the reply of createArtifact for an s3 artifact the bucket object is
  chosen by comparing the stored \<^verbatim>\<open>details.bucket\<close> with the names of the public and the
  private bucket. When the stored name is one of the two, the choice is never
  \<^verbatim>\<open>null\<close>: it is one of the two bucket objects, the one of that name; the reply never
  ends in the TypeError of calling createPutUrl on \<^verbatim>\<open>null\<close>, and for an s3 artifact it
  is the reply with the put-URL of the chosen bucket.
\<close>

theorem reply_bucket_never_null:
  assumes "details.bucket (details a) = Some (s3bucket.bucket (publicBucket c)) \<or>
           details.bucket (details a) = Some (s3bucket.bucket (privateBucket c))"
  shows "select_bucket c a \<noteq> None \<and>
         (\<exists>b. select_bucket c a = Some b \<and> details.bucket (details a) = Some (s3bucket.bucket b) \<and>
              (b = publicBucket c \<or> b = privateBucket c) \<and>
              (artifact.storageType a = ''s3'' \<longrightarrow>
                 create_reply c now st a =
                   Reply (S3Reply (artifact.contentType a) (now + 30 * 60 * 1000)
                            (createPutUrl b (prefix (details a)) (artifact.contentType a)
                               (30 * 60 + 10))))) \<and>
         (\<forall>m. create_reply c now st a \<noteq> Throw (TypeError m))"
  using assms by (auto simp: select_bucket_cases create_reply_def Let_def)

theorem reply_bucket_never_null_witness:
  "select_bucket ex_ctx ex_s3 = Some ex_public \<and>
   create_reply ex_ctx 1700000000002 ''s3'' ex_s3 =
     Reply (S3Reply ''text/plain'' 1700001800002 ''https://pub.s3/T1/0/public/log.txt?put'') \<and>
   create_reply ex_ctx 1700000000002 ''s3'' ex_s3 \<noteq>
     Throw (TypeError ''Cannot read property 'createPutUrl' of null'')"
  using reply_bucket_never_null [of ex_s3 ex_ctx 1700000000002 "''s3''"]
  by (auto simp: ex_defs no_details_def)

subsection \<open>The run check\<close>

text \<open>
  Claim C7, as the handler has it. For a createArtifact call on an existing run that
  passes the earlier validations: a run in state running takes the upload; a run in
  state exception takes it if and only if less than 25 minutes have passed since it was
  resolved, so that at exactly 25 minutes, and later, the call fails with
  RequestConflict and the task status; a run in any other state fails in the same way.
\<close>

theorem createArtifact_run_check:
  assumes "setMinutes_by c (now0 clk) (- 15) \<le> input.expires (body rq)"
    and "Task s (params_taskId rq) = Some t"
    and "run_at t (params_runId rq) = Some r"
    and "satisfies rq (CreateParams (params_taskId rq) (params_runId rq) (workerGroup r) (workerId r)
                        (params_name rq))"
    and "input.expires (body rq) \<le> task.expires t"
  shows
   "(state r = ''running'' \<longrightarrow> preflight c clk rq s = Inr (t, r)) \<and>
    (state r = ''exception'' \<and> resolved r = Some t0 \<longrightarrow>
       (preflight c clk rq s = Inr (t, r)) = (now1 clk - t0 < 25 * 60 * 1000)) \<and>
    (state r = ''exception'' \<and> resolved r = Some t0 \<and> 25 * 60 * 1000 \<le> now1 clk - t0 \<longrightarrow>
       createArtifact c clk rq s =
         (ReportError ''RequestConflict'' resolved_message (Status (status t)), s)) \<and>
    (state r \<noteq> ''running'' \<and> state r \<noteq> ''exception'' \<longrightarrow>
       createArtifact c clk rq s =
         (ReportError ''RequestConflict'' resolved_message (Status (status t)), s))"
  using assms
  by (auto simp: createArtifact_def preflight_def Let_def uploadable_def allow_def)

theorem createArtifact_run_check_witness:
  "preflight ex_ctx ex_clock ex_req ex_state = Inr (ex_task, ex_run) \<and>
   preflight ex_ctx ex_clock ex_req (ex_state_with (ex_exception 1699999400001)) =
     Inr (ex_task_with (ex_exception 1699999400001), ex_exception 1699999400001) \<and>
   createArtifact ex_ctx ex_clock ex_req (ex_state_with (ex_exception 1699998200001)) =
     (ReportError ''RequestConflict'' resolved_message (Status ''status-of-T1''),
      ex_state_with (ex_exception 1699998200001)) \<and>
   createArtifact ex_ctx ex_clock ex_req (ex_state_with (ex_run\<lparr>state := ''completed''\<rparr>)) =
     (ReportError ''RequestConflict'' resolved_message (Status ''status-of-T1''),
      ex_state_with (ex_run\<lparr>state := ''completed''\<rparr>))"
proof -
  have a: "preflight ex_ctx ex_clock ex_req ex_state = Inr (ex_task, ex_run)"
    using createArtifact_run_check
      [where rq = ex_req and clk = ex_clock and c = ex_ctx and s = ex_state and t = ex_task
         and r = ex_run]
    by (simp add: setMinutes_by_def LocalTime_def UTC_def ex_defs run_at_def)
  have b: "preflight ex_ctx ex_clock ex_req (ex_state_with (ex_exception 1699999400001)) =
     Inr (ex_task_with (ex_exception 1699999400001), ex_exception 1699999400001)"
    using createArtifact_run_check
      [where rq = ex_req and clk = ex_clock and c = ex_ctx
         and s = "ex_state_with (ex_exception 1699999400001)"
         and t = "ex_task_with (ex_exception 1699999400001)"
         and r = "ex_exception 1699999400001" and ?t0.0 = 1699999400001]
    by (simp add: setMinutes_by_def LocalTime_def UTC_def ex_defs run_at_def)
  have c: "createArtifact ex_ctx ex_clock ex_req (ex_state_with (ex_exception 1699998200001)) =
     (ReportError ''RequestConflict'' resolved_message (Status ''status-of-T1''),
      ex_state_with (ex_exception 1699998200001))"
    using createArtifact_run_check
      [where rq = ex_req and clk = ex_clock and c = ex_ctx
         and s = "ex_state_with (ex_exception 1699998200001)"
         and t = "ex_task_with (ex_exception 1699998200001)"
         and r = "ex_exception 1699998200001" and ?t0.0 = 1699998200001]
    by (simp add: setMinutes_by_def LocalTime_def UTC_def ex_defs run_at_def)
  have d: "createArtifact ex_ctx ex_clock ex_req (ex_state_with (ex_run\<lparr>state := ''completed''\<rparr>)) =
     (ReportError ''RequestConflict'' resolved_message (Status ''status-of-T1''),
      ex_state_with (ex_run\<lparr>state := ''completed''\<rparr>))"
    using createArtifact_run_check
      [where rq = ex_req and clk = ex_clock and c = ex_ctx
         and s = "ex_state_with (ex_run\<lparr>state := ''completed''\<rparr>)"
         and t = "ex_task_with (ex_run\<lparr>state := ''completed''\<rparr>)"
         and r = "ex_run\<lparr>state := ''completed''\<rparr>"]
    by (simp add: setMinutes_by_def LocalTime_def UTC_def ex_defs run_at_def)
  from a b c d show ?thesis by blast
qed

text \<open>
  The run was resolved exactly 25 minutes before the clock of the run check, and the
  call is refused.
\<close>

theorem exception_at_25_minutes_counterexample:
  "state (ex_exception 1699998500001) = ''exception'' \<and>
   resolved (ex_exception 1699998500001) = Some 1699998500001 \<and>
   now1 ex_clock - 1699998500001 = 25 * 60 * 1000 \<and>
   createArtifact ex_ctx ex_clock ex_req (ex_state_with (ex_exception 1699998500001)) =
     (ReportError ''RequestConflict'' resolved_message (Status ''status-of-T1''),
      ex_state_with (ex_exception 1699998500001))"
  by (simp add: ex_defs createArtifact_def preflight_def setMinutes_by_def LocalTime_def UTC_def
      run_at_def uploadable_def allow_def)

subsection \<open>Re-creation of an artifact\<close>

lemma construct_details_s3:
  assumes "input.storageType (body rq) = ''s3''"
  shows "construct_details c rq =
           Inr (no_details
             \<lparr>bucket := Some (if isPublic (params_name rq) then s3bucket.bucket (publicBucket c)
                              else s3bucket.bucket (privateBucket c)),
              prefix := Some (join_slash (params_taskId rq) (params_runId rq) (params_name rq))\<rparr>)"
  using assms by (simp add: construct_details_def Let_def)

lemma construct_details_types:
  assumes "construct_details c rq = Inr d"
  shows "input.storageType (body rq) \<in> {''s3'', ''azure'', ''reference'', ''error''}"
  using assms by (auto simp: construct_details_def Let_def split: if_splits)

lemma construct_details_reply:
  assumes "construct_details c rq = Inr d"
    and "artifact.storageType a = input.storageType (body rq)"
    and "details a = d"
  shows "is_reply (create_reply c now (input.storageType (body rq)) a)"
proof (cases "input.storageType (body rq) = ''s3''")
  case True
  with assms(1) construct_details_s3 [OF True, of c]
  have "details.bucket d = Some (if isPublic (params_name rq) then s3bucket.bucket (publicBucket c)
                              else s3bucket.bucket (privateBucket c))"
    by auto
  with True assms(2,3) show ?thesis
    by (auto simp: create_reply_def select_bucket_cases is_reply_def Let_def)
next
  case False
  with construct_details_types [OF assms(1)] assms(2) show ?thesis
    by (auto simp: create_reply_def is_reply_def Let_def)
qed

lemma persist_Inr_store:
  "persist new s = Inr (a, s') \<Longrightarrow>
     Artifact s' = (Artifact s)((taskId new, runId new, name new) \<mapsto> a) \<and>
     Task s' = Task s \<and> published s' = published s \<and> reported s' = reported s \<and>
     artifact.storageType a = artifact.storageType new \<and> details a = details new \<and>
     artifact.expires a = artifact.expires new \<and> artifact.contentType a = artifact.contentType new"
  by (auto simp: persist_def Let_def split: option.splits if_splits)

lemma persist_monotone:
  "persist new s = Inr (a', s') \<Longrightarrow> Artifact s k = Some b \<Longrightarrow>
     \<exists>b'. Artifact s' k = Some b' \<and> artifact.expires b \<le> artifact.expires b'"
  by (auto simp: persist_def Let_def split: option.splits if_splits)

lemma createArtifact_store:
  "Artifact (snd (createArtifact c clk rq s)) = Artifact s \<or>
   (\<exists>d a s'. construct_details c rq = Inr d \<and> persist (properties rq d) s = Inr (a, s') \<and>
      Artifact (snd (createArtifact c clk rq s)) = Artifact s')"
  by (auto simp: createArtifact_def artifactCreated_def Let_def split: sum.splits prod.splits)

lemma createArtifact_expires_monotone:
  assumes "Artifact s k = Some b"
  shows "\<exists>b'. Artifact (snd (createArtifact c clk rq s)) k = Some b' \<and>
           artifact.expires b \<le> artifact.expires b'"
  using createArtifact_store [of c clk rq s] assms persist_monotone
  by (metis order_refl)

lemma createArtifact_persist:
  assumes "preflight c clk rq s = Inr (t, r)" and "construct_details c rq = Inr d"
  shows "createArtifact c clk rq s =
           (case persist (properties rq d) s of
              Inl cf \<Rightarrow> (cf, s)
            | Inr (a, s') \<Rightarrow>
                (create_reply c (now2 clk) (input.storageType (body rq)) a,
                 artifactCreated
                   (ArtifactCreated (status t) (json a) (workerGroup r) (workerId r) (params_runId rq))
                   (routes t) s'))"
  using assms by (simp add: createArtifact_def Let_def split: sum.splits prod.splits)

lemma persist_type_mismatch:
  assumes "Artifact s (params_taskId rq, params_runId rq, params_name rq) = Some a"
    and "artifact.storageType a \<noteq> input.storageType (body rq) \<or>
         artifact.contentType a \<noteq> contentType_of (body rq) \<or>
         artifact.expires a > input.expires (body rq)"
  shows "persist (properties rq d) s =
           Inl (ReportError ''RequestConflict'' exists_type_message
                  (OriginalArtifact (artifact.storageType a) (artifact.contentType a)
                     (artifact.expires a)))"
  using assms by (auto simp: persist_def properties_def Let_def)

lemma persist_details_mismatch:
  assumes "Artifact s (params_taskId rq, params_runId rq, params_name rq) = Some a"
    and "artifact.storageType a = input.storageType (body rq)"
    and "artifact.contentType a = contentType_of (body rq)"
    and "artifact.expires a \<le> input.expires (body rq)"
    and "input.storageType (body rq) \<noteq> ''reference''" and "details a \<noteq> d"
  shows "persist (properties rq d) s =
           Inl (ReportError ''RequestConflict'' exists_details_message
                  (OriginalArtifact (artifact.storageType a) (artifact.contentType a)
                     (artifact.expires a)))"
  using assms by (auto simp: persist_def properties_def Let_def)

lemma persist_match:
  assumes "Artifact s (params_taskId rq, params_runId rq, params_name rq) = Some a"
    and "artifact.storageType a = input.storageType (body rq)"
    and "artifact.contentType a = contentType_of (body rq)"
    and "artifact.expires a \<le> input.expires (body rq)"
    and "input.storageType (body rq) = ''reference'' \<or> details a = d"
  shows "persist (properties rq d) s =
           Inr (a\<lparr>artifact.expires := input.expires (body rq), details := d\<rparr>,
                s\<lparr>Artifact := (Artifact s)((params_taskId rq, params_runId rq, params_name rq) \<mapsto>
                     a\<lparr>artifact.expires := input.expires (body rq), details := d\<rparr>)\<rparr>)"
  using assms by (auto simp: persist_def properties_def Let_def)

lemma createArtifact_match:
  assumes "preflight c clk rq s = Inr (t, r)"
    and "construct_details c rq = Inr d"
    and "Artifact s (params_taskId rq, params_runId rq, params_name rq) = Some a"
    and "artifact.storageType a = input.storageType (body rq)"
    and "artifact.contentType a = contentType_of (body rq)"
    and "artifact.expires a \<le> input.expires (body rq)"
    and "input.storageType (body rq) = ''reference'' \<or> details a = d"
  shows "is_reply (fst (createArtifact c clk rq s)) \<and>
         Artifact (snd (createArtifact c clk rq s)) =
           (Artifact s)((params_taskId rq, params_runId rq, params_name rq) \<mapsto>
              a\<lparr>artifact.expires := input.expires (body rq), details := d\<rparr>)"
proof -
  let ?a' = "a\<lparr>artifact.expires := input.expires (body rq), details := d\<rparr>"
  have r: "is_reply (create_reply c (now2 clk) (input.storageType (body rq)) ?a')"
    using construct_details_reply [OF assms(2), of ?a'] assms(4) by simp
  show ?thesis
    using createArtifact_persist [OF assms(1,2)] persist_match [OF assms(3-7)] r
    by (simp add: artifactCreated_def)
qed

text \<open>
  Claim C3. For a createArtifact call that passed the validations and whose insert finds
  the key taken by an artifact \<open>a\<close>: when the storage type or the content type differs,
  or \<open>a\<close> expires later than the request asks, the call fails with RequestConflict and
  the state is the one given; when these three agree, the storage type is not reference
  and the details of \<open>a\<close> are not equal to the new details, it fails in the same way;
  when these three agree and either the storage type is reference (whatever the stored
  url) or the details are equal, the call replies and the table holds \<open>a\<close> with the new
  expiration and the new details under the key.
\<close>

theorem createArtifact_conflict_branch:
  assumes "preflight c clk rq s = Inr (t, r)"
    and "construct_details c rq = Inr d"
    and "Artifact s (params_taskId rq, params_runId rq, params_name rq) = Some a"
  shows
   "(artifact.storageType a \<noteq> input.storageType (body rq) \<or>
     artifact.contentType a \<noteq> contentType_of (body rq) \<or>
     artifact.expires a > input.expires (body rq) \<longrightarrow>
       createArtifact c clk rq s =
          (ReportError ''RequestConflict'' exists_type_message
             (OriginalArtifact (artifact.storageType a) (artifact.contentType a) (artifact.expires a)), s)) \<and>
    (artifact.storageType a = input.storageType (body rq) \<and>
     artifact.contentType a = contentType_of (body rq) \<and>
     artifact.expires a \<le> input.expires (body rq) \<and>
     input.storageType (body rq) \<noteq> ''reference'' \<and> details a \<noteq> d \<longrightarrow>
       createArtifact c clk rq s =
          (ReportError ''RequestConflict'' exists_details_message
             (OriginalArtifact (artifact.storageType a) (artifact.contentType a) (artifact.expires a)), s)) \<and>
    (artifact.storageType a = input.storageType (body rq) \<and>
     artifact.contentType a = contentType_of (body rq) \<and>
     artifact.expires a \<le> input.expires (body rq) \<and>
     (input.storageType (body rq) = ''reference'' \<or> details a = d) \<longrightarrow>
       is_reply (fst (createArtifact c clk rq s)) \<and>
       Artifact (snd (createArtifact c clk rq s)) =
         (Artifact s)((params_taskId rq, params_runId rq, params_name rq) \<mapsto>
            a\<lparr>artifact.expires := input.expires (body rq), details := d\<rparr>))"
proof (intro conjI impI)
  assume "artifact.storageType a \<noteq> input.storageType (body rq) \<or>
     artifact.contentType a \<noteq> contentType_of (body rq) \<or>
     artifact.expires a > input.expires (body rq)"
  from persist_type_mismatch [OF assms(3) this]
  show "createArtifact c clk rq s =
          (ReportError ''RequestConflict'' exists_type_message
             (OriginalArtifact (artifact.storageType a) (artifact.contentType a) (artifact.expires a)), s)"
    using createArtifact_persist [OF assms(1,2)] by simp
next
  assume "artifact.storageType a = input.storageType (body rq) \<and>
     artifact.contentType a = contentType_of (body rq) \<and>
     artifact.expires a \<le> input.expires (body rq) \<and>
     input.storageType (body rq) \<noteq> ''reference'' \<and> details a \<noteq> d"
  then have "persist (properties rq d) s =
           Inl (ReportError ''RequestConflict'' exists_details_message
                  (OriginalArtifact (artifact.storageType a) (artifact.contentType a)
                     (artifact.expires a)))"
    using persist_details_mismatch [OF assms(3)] by blast
  then show "createArtifact c clk rq s =
          (ReportError ''RequestConflict'' exists_details_message
             (OriginalArtifact (artifact.storageType a) (artifact.contentType a) (artifact.expires a)), s)"
    using createArtifact_persist [OF assms(1,2)] by simp
next
  assume ok: "artifact.storageType a = input.storageType (body rq) \<and>
     artifact.contentType a = contentType_of (body rq) \<and>
     artifact.expires a \<le> input.expires (body rq) \<and>
     (input.storageType (body rq) = ''reference'' \<or> details a = d)"
  then show "is_reply (fst (createArtifact c clk rq s))"
    using createArtifact_match [OF assms] by blast
  from ok show "Artifact (snd (createArtifact c clk rq s)) =
         (Artifact s)((params_taskId rq, params_runId rq, params_name rq) \<mapsto>
            a\<lparr>artifact.expires := input.expires (body rq), details := d\<rparr>)"
    using createArtifact_match [OF assms] by blast
qed

theorem createArtifact_conflict_branch_witness:
  "createArtifact ex_ctx ex_clock (ex_req\<lparr>body := ex_input\<lparr>input.contentType := Some ''text/html''\<rparr>\<rparr>)
       ex_stored =
     (ReportError ''RequestConflict'' exists_type_message
        (OriginalArtifact ''s3'' ''text/plain'' 1800000000000), ex_stored) \<and>
   createArtifact ex_ctx ex_clock ex_req
       (ex_state\<lparr>Artifact := [(''T1'', 0, ''public/log.txt'') \<mapsto> ex_s3\<lparr>details := no_details\<rparr>]\<rparr>) =
     (ReportError ''RequestConflict'' exists_details_message
        (OriginalArtifact ''s3'' ''text/plain'' 1800000000000),
      ex_state\<lparr>Artifact := [(''T1'', 0, ''public/log.txt'') \<mapsto> ex_s3\<lparr>details := no_details\<rparr>]\<rparr>) \<and>
   is_reply (fst (createArtifact ex_ctx ex_clock
                    (ex_req\<lparr>body := ex_input\<lparr>input.expires := 1800000000001\<rparr>\<rparr>) ex_stored)) \<and>
   Artifact (snd (createArtifact ex_ctx ex_clock
                    (ex_req\<lparr>body := ex_input\<lparr>input.expires := 1800000000001\<rparr>\<rparr>) ex_stored)) =
     [(''T1'', 0, ''public/log.txt'') \<mapsto> ex_s3\<lparr>artifact.expires := 1800000000001\<rparr>] \<and>
   is_reply (fst (createArtifact ex_ctx ex_clock ex_ref_req ex_ref_stored)) \<and>
   Artifact (snd (createArtifact ex_ctx ex_clock ex_ref_req ex_ref_stored)) =
     [(''T1'', 0, ''public/link'') \<mapsto>
        ex_reference\<lparr>details := no_details\<lparr>url := Some ''http://b.test/''\<rparr>\<rparr>]"
proof -
  have a: "createArtifact ex_ctx ex_clock
       (ex_req\<lparr>body := ex_input\<lparr>input.contentType := Some ''text/html''\<rparr>\<rparr>) ex_stored =
     (ReportError ''RequestConflict'' exists_type_message
        (OriginalArtifact ''s3'' ''text/plain'' 1800000000000), ex_stored)"
    using createArtifact_conflict_branch
      [where c = ex_ctx and clk = ex_clock and s = ex_stored and t = ex_task and r = ex_run
         and rq = "ex_req\<lparr>body := ex_input\<lparr>input.contentType := Some ''text/html''\<rparr>\<rparr>"
         and d = "details ex_s3" and a = ex_s3]
    by (simp add: eval_defs ex_defs)
  have b: "createArtifact ex_ctx ex_clock ex_req
       (ex_state\<lparr>Artifact := [(''T1'', 0, ''public/log.txt'') \<mapsto> ex_s3\<lparr>details := no_details\<rparr>]\<rparr>) =
     (ReportError ''RequestConflict'' exists_details_message
        (OriginalArtifact ''s3'' ''text/plain'' 1800000000000),
      ex_state\<lparr>Artifact := [(''T1'', 0, ''public/log.txt'') \<mapsto> ex_s3\<lparr>details := no_details\<rparr>]\<rparr>)"
    using createArtifact_conflict_branch
      [where c = ex_ctx and clk = ex_clock and t = ex_task and r = ex_run
         and s = "ex_state\<lparr>Artifact := [(''T1'', 0, ''public/log.txt'') \<mapsto> ex_s3\<lparr>details := no_details\<rparr>]\<rparr>"
         and rq = ex_req and d = "details ex_s3" and a = "ex_s3\<lparr>details := no_details\<rparr>"]
    by (simp add: eval_defs ex_defs)
  have c: "is_reply (fst (createArtifact ex_ctx ex_clock
                    (ex_req\<lparr>body := ex_input\<lparr>input.expires := 1800000000001\<rparr>\<rparr>) ex_stored)) \<and>
   Artifact (snd (createArtifact ex_ctx ex_clock
                    (ex_req\<lparr>body := ex_input\<lparr>input.expires := 1800000000001\<rparr>\<rparr>) ex_stored)) =
     [(''T1'', 0, ''public/log.txt'') \<mapsto> ex_s3\<lparr>artifact.expires := 1800000000001\<rparr>]"
    using createArtifact_conflict_branch
      [where c = ex_ctx and clk = ex_clock and s = ex_stored and t = ex_task and r = ex_run
         and rq = "ex_req\<lparr>body := ex_input\<lparr>input.expires := 1800000000001\<rparr>\<rparr>"
         and d = "details ex_s3" and a = ex_s3]
    by (simp add: eval_defs ex_defs)
  have d: "is_reply (fst (createArtifact ex_ctx ex_clock ex_ref_req ex_ref_stored)) \<and>
   Artifact (snd (createArtifact ex_ctx ex_clock ex_ref_req ex_ref_stored)) =
     [(''T1'', 0, ''public/link'') \<mapsto>
        ex_reference\<lparr>details := no_details\<lparr>url := Some ''http://b.test/''\<rparr>\<rparr>]"
    using createArtifact_conflict_branch
      [where c = ex_ctx and clk = ex_clock and s = ex_ref_stored and t = ex_task and r = ex_run
         and rq = ex_ref_req and d = "no_details\<lparr>url := Some ''http://b.test/''\<rparr>"
         and a = ex_reference]
    by (simp add: eval_defs ex_defs)
  from a b c d show ?thesis by blast
qed

subsection \<open>Expiration across re-creation\<close>

text \<open>
  Claim C1, as the handler has it. For a stored artifact and a createArtifact call with
  the same key that passed the validations, with equal storage type, content type and
  details: when the new expiration is strictly earlier than the stored one the call
  fails with RequestConflict and the state is the one given; when it is equal or later
  the call replies and the stored expiration is the new one. Whatever the call, every
  artifact of the table is still there afterwards with an expiration that is not earlier.
\<close>

theorem recreate_expires:
  assumes "preflight c clk rq s = Inr (t, r)"
    and "construct_details c rq = Inr d"
    and "Artifact s (params_taskId rq, params_runId rq, params_name rq) = Some a"
    and "artifact.storageType a = input.storageType (body rq)"
    and "artifact.contentType a = contentType_of (body rq)"
    and "details a = d"
  shows
   "(input.expires (body rq) < artifact.expires a \<longrightarrow>
       createArtifact c clk rq s =
          (ReportError ''RequestConflict'' exists_type_message
             (OriginalArtifact (artifact.storageType a) (artifact.contentType a) (artifact.expires a)), s)) \<and>
    (artifact.expires a \<le> input.expires (body rq) \<longrightarrow>
       is_reply (fst (createArtifact c clk rq s)) \<and>
       Artifact (snd (createArtifact c clk rq s))
           (params_taskId rq, params_runId rq, params_name rq) =
         Some (a\<lparr>artifact.expires := input.expires (body rq)\<rparr>)) \<and>
    (\<forall>k b. Artifact s k = Some b \<longrightarrow>
       (\<exists>b'. Artifact (snd (createArtifact c clk rq s)) k = Some b' \<and>
             artifact.expires b \<le> artifact.expires b'))"
proof (intro conjI impI allI)
  assume "input.expires (body rq) < artifact.expires a"
  then have "persist (properties rq d) s =
           Inl (ReportError ''RequestConflict'' exists_type_message
                  (OriginalArtifact (artifact.storageType a) (artifact.contentType a)
                     (artifact.expires a)))"
    using persist_type_mismatch [OF assms(3)] by simp
  then show "createArtifact c clk rq s =
          (ReportError ''RequestConflict'' exists_type_message
             (OriginalArtifact (artifact.storageType a) (artifact.contentType a) (artifact.expires a)), s)"
    using createArtifact_persist [OF assms(1,2)] by simp
next
  assume le: "artifact.expires a \<le> input.expires (body rq)"
  from createArtifact_match [OF assms(1-5) le] assms(6)
  show "is_reply (fst (createArtifact c clk rq s))" by blast
  have "a\<lparr>artifact.expires := input.expires (body rq), details := d\<rparr> =
        a\<lparr>artifact.expires := input.expires (body rq)\<rparr>"
    using assms(6) by simp
  with createArtifact_match [OF assms(1-5) le] assms(6)
  show "Artifact (snd (createArtifact c clk rq s))
           (params_taskId rq, params_runId rq, params_name rq) =
         Some (a\<lparr>artifact.expires := input.expires (body rq)\<rparr>)" by simp
next
  fix k b assume "Artifact s k = Some b"
  then show "\<exists>b'. Artifact (snd (createArtifact c clk rq s)) k = Some b' \<and>
             artifact.expires b \<le> artifact.expires b'"
    by (rule createArtifact_expires_monotone)
qed

theorem recreate_expires_witness:
  "createArtifact ex_ctx ex_clock (ex_req\<lparr>body := ex_input\<lparr>input.expires := 1799999999999\<rparr>\<rparr>)
       ex_stored =
     (ReportError ''RequestConflict'' exists_type_message
        (OriginalArtifact ''s3'' ''text/plain'' 1800000000000), ex_stored) \<and>
   is_reply (fst (createArtifact ex_ctx ex_clock
                    (ex_req\<lparr>body := ex_input\<lparr>input.expires := 1800000000001\<rparr>\<rparr>) ex_stored)) \<and>
   Artifact (snd (createArtifact ex_ctx ex_clock
                    (ex_req\<lparr>body := ex_input\<lparr>input.expires := 1800000000001\<rparr>\<rparr>) ex_stored))
       (''T1'', 0, ''public/log.txt'') =
     Some (ex_s3\<lparr>artifact.expires := 1800000000001\<rparr>) \<and>
   (\<exists>b'. Artifact (snd (createArtifact ex_ctx ex_clock ex_req ex_stored))
            (''T1'', 0, ''public/log.txt'') = Some b' \<and>
         artifact.expires ex_s3 \<le> artifact.expires b')"
proof -
  have a: "createArtifact ex_ctx ex_clock
       (ex_req\<lparr>body := ex_input\<lparr>input.expires := 1799999999999\<rparr>\<rparr>) ex_stored =
     (ReportError ''RequestConflict'' exists_type_message
        (OriginalArtifact ''s3'' ''text/plain'' 1800000000000), ex_stored)"
    using recreate_expires
      [where c = ex_ctx and clk = ex_clock and s = ex_stored and t = ex_task and r = ex_run
         and rq = "ex_req\<lparr>body := ex_input\<lparr>input.expires := 1799999999999\<rparr>\<rparr>"
         and d = "details ex_s3" and a = ex_s3]
    by (simp add: eval_defs ex_defs)
  have b: "is_reply (fst (createArtifact ex_ctx ex_clock
                    (ex_req\<lparr>body := ex_input\<lparr>input.expires := 1800000000001\<rparr>\<rparr>) ex_stored)) \<and>
   Artifact (snd (createArtifact ex_ctx ex_clock
                    (ex_req\<lparr>body := ex_input\<lparr>input.expires := 1800000000001\<rparr>\<rparr>) ex_stored))
       (''T1'', 0, ''public/log.txt'') =
     Some (ex_s3\<lparr>artifact.expires := 1800000000001\<rparr>)"
    using recreate_expires
      [where c = ex_ctx and clk = ex_clock and s = ex_stored and t = ex_task and r = ex_run
         and rq = "ex_req\<lparr>body := ex_input\<lparr>input.expires := 1800000000001\<rparr>\<rparr>"
         and d = "details ex_s3" and a = ex_s3]
    by (simp add: eval_defs ex_defs)
  have c: "\<exists>b'. Artifact (snd (createArtifact ex_ctx ex_clock ex_req ex_stored))
            (''T1'', 0, ''public/log.txt'') = Some b' \<and>
         artifact.expires ex_s3 \<le> artifact.expires b'"
  proof -
    have "\<forall>k b. Artifact ex_stored k = Some b \<longrightarrow>
       (\<exists>b'. Artifact (snd (createArtifact ex_ctx ex_clock ex_req ex_stored)) k = Some b' \<and>
             artifact.expires b \<le> artifact.expires b')"
      using recreate_expires
        [where c = ex_ctx and clk = ex_clock and s = ex_stored and t = ex_task and r = ex_run
           and rq = ex_req and d = "details ex_s3" and a = ex_s3]
      by (simp add: eval_defs ex_defs)
    moreover have "Artifact ex_stored (''T1'', 0, ''public/log.txt'') = Some ex_s3"
      by (simp add: ex_defs)
    ultimately show ?thesis by blast
  qed
  from a b c show ?thesis by blast
qed

text \<open>
  The stored artifact expires at 1800000000000; the same request with the expiration
  1799999999999 is refused.
\<close>

theorem recreate_earlier_expires_counterexample:
  "artifact.storageType ex_s3 = input.storageType ex_input \<and>
   artifact.contentType ex_s3 = contentType_of ex_input \<and>
   construct_details ex_ctx (ex_req\<lparr>body := ex_input\<lparr>input.expires := 1799999999999\<rparr>\<rparr>) =
     Inr (details ex_s3) \<and>
   Artifact ex_stored (''T1'', 0, ''public/log.txt'') = Some ex_s3 \<and>
   1799999999999 < artifact.expires ex_s3 \<and>
   createArtifact ex_ctx ex_clock (ex_req\<lparr>body := ex_input\<lparr>input.expires := 1799999999999\<rparr>\<rparr>)
       ex_stored =
     (ReportError ''RequestConflict'' exists_type_message
        (OriginalArtifact ''s3'' ''text/plain'' 1800000000000), ex_stored)"
  by (simp add: createArtifact_def persist_def properties_def eval_defs ex_defs)

subsection \<open>The bucket of an s3 artifact\<close>

lemma isPublic_iff: "isPublic nm = (\<exists>rest. nm = ''public/'' @ rest)"
proof
  assume "isPublic nm"
  then have "take 7 nm = ''public/''" by (simp add: isPublic_def)
  then have "nm = ''public/'' @ drop 7 nm" by (metis append_take_drop_id)
  then show "\<exists>rest. nm = ''public/'' @ rest" ..
next
  assume "\<exists>rest. nm = ''public/'' @ rest"
  then show "isPublic nm" by (auto simp: isPublic_def)
qed

lemma persist_Inl_not_reply: "persist new s = Inl cf \<Longrightarrow> \<not> is_reply cf"
  by (auto simp: persist_def Let_def is_reply_def split: option.splits if_splits)

lemma createArtifact_reply_stored:
  assumes "preflight c clk rq s = Inr (t, r)" and "construct_details c rq = Inr d"
    and "is_reply (fst (createArtifact c clk rq s))"
  shows "\<exists>a. Artifact (snd (createArtifact c clk rq s))
               (params_taskId rq, params_runId rq, params_name rq) = Some a \<and>
             artifact.storageType a = input.storageType (body rq) \<and> details a = d"
proof (cases "persist (properties rq d) s")
  case (Inl cf)
  with createArtifact_persist [OF assms(1,2)] assms(3) persist_Inl_not_reply [OF Inl]
  show ?thesis by simp
next
  case (Inr p)
  obtain a s' where p: "p = (a, s')" by (cases p)
  from persist_Inr_store [OF Inr [unfolded p]] createArtifact_persist [OF assms(1,2)] Inr p
  show ?thesis by (simp add: artifactCreated_def properties_def)
qed

lemma createArtifact_bucket_invariant:
  assumes "bucket_invariant c (Artifact s)"
  shows "bucket_invariant c (Artifact (snd (createArtifact c clk rq s)))"
proof -
  from createArtifact_store [of c clk rq s]
  consider "Artifact (snd (createArtifact c clk rq s)) = Artifact s"
    | d a s' where "construct_details c rq = Inr d" "persist (properties rq d) s = Inr (a, s')"
        "Artifact (snd (createArtifact c clk rq s)) = Artifact s'"
    by blast
  then show ?thesis
  proof cases
    case 1
    with assms show ?thesis by simp
  next
    case 2
    from persist_Inr_store [OF 2(2)]
    have st: "Artifact s' = (Artifact s)((params_taskId rq, params_runId rq, params_name rq) \<mapsto> a)"
      and ty: "artifact.storageType a = input.storageType (body rq)" and de: "details a = d"
      by (simp_all add: properties_def)
    have new: "artifact.storageType a = ''s3'' \<Longrightarrow>
        details.bucket (details a) =
          Some (if isPublic (params_name rq) then s3bucket.bucket (publicBucket c)
                else s3bucket.bucket (privateBucket c)) \<and>
        details.prefix (details a) =
          Some (join_slash (params_taskId rq) (params_runId rq) (params_name rq))"
      using construct_details_s3 [of rq c] 2(1) ty de by auto
    show ?thesis
      unfolding bucket_invariant_def 2(3) st
      using assms new by (auto simp: bucket_invariant_def)
  qed
qed

lemma createArtifact_calls_invariant:
  "bucket_invariant c (Artifact s) \<Longrightarrow> bucket_invariant c (Artifact (createArtifact_calls c cs s))"
proof (induction cs arbitrary: s)
  case Nil
  then show ?case by simp
next
  case (Cons x cs)
  obtain clk rq tasks where x: "x = (clk, rq, tasks)" by (cases x)
  have "bucket_invariant c (Artifact (s\<lparr>Task := tasks\<rparr>))" using Cons.prems by simp
  from createArtifact_bucket_invariant [OF this] Cons.IH x show ?case by simp
qed

text \<open>
  Claim C6. A createArtifact call with storage type s3 that passed the validations
  builds details whose bucket is the public bucket when the name begins with
  \<^verbatim>\<open>public/\<close> and the private bucket otherwise, and whose prefix is taskId, runId and name
  joined by \<^verbatim>\<open>/\<close>; when the call replies, the artifact stored under the key has these
  details. Every s3 artifact of a table that createArtifact calls built from the empty
  table (or from any table with this property) lies in the bucket its name selects.
\<close>

theorem s3_bucket_by_name:
  "(preflight c clk rq s = Inr (t, r) \<and> input.storageType (body rq) = ''s3'' \<longrightarrow>
      construct_details c rq =
        Inr (no_details
          \<lparr>bucket := Some (if isPublic (params_name rq) then s3bucket.bucket (publicBucket c)
                           else s3bucket.bucket (privateBucket c)),
           prefix := Some (params_taskId rq @ ''/'' @ number_toString (params_runId rq) @ ''/'' @
                           params_name rq)\<rparr>) \<and>
      (is_reply (fst (createArtifact c clk rq s)) \<longrightarrow>
         (\<exists>a. Artifact (snd (createArtifact c clk rq s))
                 (params_taskId rq, params_runId rq, params_name rq) = Some a \<and>
               artifact.storageType a = ''s3'' \<and>
               details a = no_details
                 \<lparr>bucket := Some (if isPublic (params_name rq) then s3bucket.bucket (publicBucket c)
                                  else s3bucket.bucket (privateBucket c)),
                  prefix := Some (params_taskId rq @ ''/'' @ number_toString (params_runId rq) @
                                  ''/'' @ params_name rq)\<rparr>))) \<and>
   isPublic nm = (\<exists>rest. nm = ''public/'' @ rest) \<and>
   bucket_invariant c Map.empty \<and>
   (bucket_invariant c (Artifact s0) \<longrightarrow>
      bucket_invariant c (Artifact (createArtifact_calls c calls s0)))"
proof (intro conjI impI)
  assume h: "preflight c clk rq s = Inr (t, r) \<and> input.storageType (body rq) = ''s3''"
  then show d: "construct_details c rq =
        Inr (no_details
          \<lparr>bucket := Some (if isPublic (params_name rq) then s3bucket.bucket (publicBucket c)
                           else s3bucket.bucket (privateBucket c)),
           prefix := Some (params_taskId rq @ ''/'' @ number_toString (params_runId rq) @ ''/'' @
                           params_name rq)\<rparr>)"
    using construct_details_s3 [of rq c] by (simp add: join_slash_def)
  assume "is_reply (fst (createArtifact c clk rq s))"
  from createArtifact_reply_stored [OF _ d this] h
  show "\<exists>a. Artifact (snd (createArtifact c clk rq s))
                 (params_taskId rq, params_runId rq, params_name rq) = Some a \<and>
               artifact.storageType a = ''s3'' \<and>
               details a = no_details
                 \<lparr>bucket := Some (if isPublic (params_name rq) then s3bucket.bucket (publicBucket c)
                                  else s3bucket.bucket (privateBucket c)),
                  prefix := Some (params_taskId rq @ ''/'' @ number_toString (params_runId rq) @
                                  ''/'' @ params_name rq)\<rparr>"
    by auto
next
  show "isPublic nm = (\<exists>rest. nm = ''public/'' @ rest)" by (rule isPublic_iff)
next
  show "bucket_invariant c Map.empty" by (simp add: bucket_invariant_def)
next
  assume "bucket_invariant c (Artifact s0)"
  then show "bucket_invariant c (Artifact (createArtifact_calls c calls s0))"
    by (rule createArtifact_calls_invariant)
qed


theorem s3_bucket_by_name_witness:
  "construct_details ex_ctx ex_req =
     Inr (no_details\<lparr>bucket := Some ''pub'', prefix := Some ''T1/0/public/log.txt''\<rparr>) \<and>
   construct_details ex_ctx (ex_req\<lparr>params_name := ''private/log.txt''\<rparr>) =
     Inr (no_details\<lparr>bucket := Some ''priv'', prefix := Some ''T1/0/private/log.txt''\<rparr>) \<and>
   (\<exists>a. Artifact (snd (createArtifact ex_ctx ex_clock ex_req ex_state))
           (''T1'', 0, ''public/log.txt'') = Some a \<and>
        artifact.storageType a = ''s3'' \<and>
        details a = no_details\<lparr>bucket := Some ''pub'', prefix := Some ''T1/0/public/log.txt''\<rparr>) \<and>
   bucket_invariant ex_ctx
     (Artifact (createArtifact_calls ex_ctx
        [(ex_clock, ex_req, Task ex_state),
         (ex_clock, ex_req\<lparr>params_name := ''private/log.txt''\<rparr>, Task ex_state)] ex_state))"
proof -
  have r: "is_reply (fst (createArtifact ex_ctx ex_clock ex_req ex_state))"
    by (simp add: createArtifact_def persist_def properties_def create_reply_def select_bucket_def
        artifactCreated_def is_reply_def eval_defs ex_defs)
  have a: "construct_details ex_ctx ex_req =
     Inr (no_details\<lparr>bucket := Some ''pub'', prefix := Some ''T1/0/public/log.txt''\<rparr>) \<and>
   (\<exists>a. Artifact (snd (createArtifact ex_ctx ex_clock ex_req ex_state))
           (''T1'', 0, ''public/log.txt'') = Some a \<and>
        artifact.storageType a = ''s3'' \<and>
        details a = no_details\<lparr>bucket := Some ''pub'', prefix := Some ''T1/0/public/log.txt''\<rparr>)"
    using s3_bucket_by_name
      [where c = ex_ctx and clk = ex_clock and rq = ex_req and s = ex_state and t = ex_task
         and r = ex_run] r
    by (simp add: preflight_def setMinutes_by_def LocalTime_def UTC_def run_at_def uploadable_def
        isPublic_def number_toString_def
        string_of_nat.simps ex_defs)
  have b: "construct_details ex_ctx (ex_req\<lparr>params_name := ''private/log.txt''\<rparr>) =
     Inr (no_details\<lparr>bucket := Some ''priv'', prefix := Some ''T1/0/private/log.txt''\<rparr>)"
    using s3_bucket_by_name
      [where c = ex_ctx and clk = ex_clock and rq = "ex_req\<lparr>params_name := ''private/log.txt''\<rparr>"
         and s = ex_state and t = ex_task and r = ex_run]
    by (simp add: preflight_def setMinutes_by_def LocalTime_def UTC_def run_at_def uploadable_def
        isPublic_def number_toString_def
        string_of_nat.simps ex_defs)
  have c: "bucket_invariant ex_ctx
     (Artifact (createArtifact_calls ex_ctx
        [(ex_clock, ex_req, Task ex_state),
         (ex_clock, ex_req\<lparr>params_name := ''private/log.txt''\<rparr>, Task ex_state)] ex_state))"
    using s3_bucket_by_name
      [where c = ex_ctx and ?s0.0 = ex_state
         and calls = "[(ex_clock, ex_req, Task ex_state),
           (ex_clock, ex_req\<lparr>params_name := ''private/log.txt''\<rparr>, Task ex_state)]"]
    by (simp add: bucket_invariant_def ex_state_def)
  from a b c show ?thesis by blast
qed

subsection \<open>The url of a public s3 artifact\<close>

lemma escape_pathname_append: "escape_pathname (p @ q) = escape_pathname p @ escape_pathname q"
  by (simp add: escape_pathname_def)

lemma escape_pathname_id:
  "CHR ''?'' \<notin> set p \<Longrightarrow> CHR ''#'' \<notin> set p \<Longrightarrow> escape_pathname p = p"
  by (induction p) (auto simp: escape_pathname_def)

lemma hex_digit_plain: "k < 16 \<Longrightarrow> hex_digit k \<noteq> CHR ''?'' \<and> hex_digit k \<noteq> CHR ''#''"
proof -
  assume "k < 16"
  then have "hex_digit k \<in> set ''0123456789ABCDEF''"
    unfolding hex_digit_def by (intro nth_mem) simp
  then show ?thesis by auto
qed

lemma encode_char_plain: "CHR ''?'' \<notin> set (encode_char x) \<and> CHR ''#'' \<notin> set (encode_char x)"
proof (cases "unreserved x")
  case True
  then have "x \<noteq> CHR ''?'' \<and> x \<noteq> CHR ''#''" by (auto simp: unreserved_def Let_def)
  with True show ?thesis by (auto simp: encode_char_def)
next
  case False
  have "(of_char x :: nat) < 256" by simp
  then have "(of_char x :: nat) div 16 < 16" "(of_char x :: nat) mod 16 < 16" by arith+
  from hex_digit_plain [OF this(1)] hex_digit_plain [OF this(2)] False
  show ?thesis by (auto simp: encode_char_def)
qed

lemma encodeURIComponent_plain:
  "CHR ''?'' \<notin> set (encodeURIComponent u) \<and> CHR ''#'' \<notin> set (encodeURIComponent u)"
  using encode_char_plain by (auto simp: encodeURIComponent_def)

lemma cloud_mirror_url:
  assumes "host \<noteq> []" and "CHR ''?'' \<notin> set region" and "CHR ''#'' \<notin> set region"
  shows "urllib_format ''https:'' host (cloudMirrorPath region u) =
           ''https://'' @ host @ ''/v1/redirect/s3/'' @ region @ ''/'' @ encodeURIComponent u"
proof -
  have "CHR ''?'' \<notin> set (cloudMirrorPath region u) \<and> CHR ''#'' \<notin> set (cloudMirrorPath region u)"
    using assms(2,3) encodeURIComponent_plain [of u] by (simp add: cloudMirrorPath_def)
  then have "escape_pathname (cloudMirrorPath region u) = cloudMirrorPath region u"
    by (simp add: escape_pathname_id)
  then show ?thesis
    using assms(1) by (simp add: urllib_format_def slashedProtocol_def cloudMirrorPath_def)
qed


lemma public_url_rule:
  assumes "cloudMirrorHost c \<noteq> []"
    and "\<forall>g. getRegion c rq = Some g \<longrightarrow> CHR ''?'' \<notin> set g \<and> CHR ''#'' \<notin> set g"
  shows "public_url c rq a =
     (if no_region (getRegion c rq) \<or> skipCacheHeader rq = ''true'' \<or> skipCacheHeader rq = ''1''
      then createGetUrl (publicBucket c) (prefix (details a)) False
      else if getRegion c rq = Some (artifactRegion c)
      then createGetUrl (publicBucket c) (prefix (details a)) True
      else ''https://'' @ cloudMirrorHost c @ ''/v1/redirect/s3/'' @ the (getRegion c rq) @ ''/'' @
           encodeURIComponent (createGetUrl (publicBucket c) (prefix (details a)) True))"
proof (cases "getRegion c rq")
  case None
  then show ?thesis by (simp add: public_url_def no_region_def)
next
  case (Some g)
  with assms(2) have "CHR ''?'' \<notin> set g" "CHR ''#'' \<notin> set g" by auto
  from cloud_mirror_url [OF assms(1) this] Some show ?thesis
    by (auto simp: public_url_def no_region_def Let_def)
qed

text \<open>
  Claim C4. For a stored s3 artifact of the public bucket the answer is a 303 redirect
  whose url follows a three-way rule: when no region is resolved, or the
  x-taskcluster-skip-cache header in lower case is \<^verbatim>\<open>true\<close> or \<^verbatim>\<open>1\<close>, it is the
  get-url of the public bucket without the same-region flag (the CDN url); else when the
  region is the artifact region it is the get-url with the flag (the direct url); else
  it is \<^verbatim>\<open>https://{cloudMirrorHost}/v1/redirect/s3/{region}/{encoded}\<close>, where \<open>encoded\<close> is
  encodeURIComponent of the direct url. This is stated for a deployment whose adapter
  gives non-empty urls, whose cloud-mirror host is not empty and whose region tags hold
  neither \<^verbatim>\<open>?\<close> nor \<^verbatim>\<open>#\<close> (characters that \<^verbatim>\<open>url.format\<close> would escape in a
  path). getArtifact gives this answer whenever the name is public or the scopes are
  satisfied.
\<close>

theorem public_s3_location:
  assumes "Artifact s (tid, rid, nm) = Some a"
    and "artifact.storageType a = ''s3''"
    and "details.bucket (details a) = Some (s3bucket.bucket (publicBucket c))"
    and "\<forall>p same. createGetUrl (publicBucket c) p same \<noteq> []"
    and "cloudMirrorHost c \<noteq> []"
    and "\<forall>g. getRegion c rq = Some g \<longrightarrow> CHR ''?'' \<notin> set g \<and> CHR ''#'' \<notin> set g"
  shows
   "replyWithArtifact c now tid rid nm rq s =
      (Redirect 303 (Some
         (if no_region (getRegion c rq) \<or> skipCacheHeader rq = ''true'' \<or> skipCacheHeader rq = ''1''
          then createGetUrl (publicBucket c) (prefix (details a)) False
          else if getRegion c rq = Some (artifactRegion c)
          then createGetUrl (publicBucket c) (prefix (details a)) True
          else ''https://'' @ cloudMirrorHost c @ ''/v1/redirect/s3/'' @ the (getRegion c rq) @ ''/'' @
               encodeURIComponent (createGetUrl (publicBucket c) (prefix (details a)) True))), s) \<and>
    (tid = params_taskId rq \<and> rid = params_runId rq \<and> nm = params_name rq \<and>
     (isPublic nm \<or> satisfies rq (GetParams nm)) \<longrightarrow>
       getArtifact c now rq s = replyWithArtifact c now tid rid nm rq s)"
proof
  let ?u = "public_url c rq a"
  have ne: "?u \<noteq> []"
    unfolding public_url_rule [OF assms(5,6)] using assms(4) by simp
  have "replyWithArtifact c now tid rid nm rq s = (Redirect 303 (Some ?u), s)"
    using assms(1-3) ne by (simp add: replyWithArtifact_def assert_redirect_def Let_def)
  then show "replyWithArtifact c now tid rid nm rq s =
      (Redirect 303 (Some
         (if no_region (getRegion c rq) \<or> skipCacheHeader rq = ''true'' \<or> skipCacheHeader rq = ''1''
          then createGetUrl (publicBucket c) (prefix (details a)) False
          else if getRegion c rq = Some (artifactRegion c)
          then createGetUrl (publicBucket c) (prefix (details a)) True
          else ''https://'' @ cloudMirrorHost c @ ''/v1/redirect/s3/'' @ the (getRegion c rq) @ ''/'' @
               encodeURIComponent (createGetUrl (publicBucket c) (prefix (details a)) True))), s)"
    unfolding public_url_rule [OF assms(5,6)] .
next
  show "tid = params_taskId rq \<and> rid = params_runId rq \<and> nm = params_name rq \<and>
     (isPublic nm \<or> satisfies rq (GetParams nm)) \<longrightarrow>
       getArtifact c now rq s = replyWithArtifact c now tid rid nm rq s"
    by (auto simp: getArtifact_def Let_def)
qed

theorem public_s3_location_witness:
  "getArtifact (ex_ctx_region None) 1700000000000 ex_req ex_stored =
     (Redirect 303 (Some ''https://cdn/T1/0/public/log.txt''), ex_stored) \<and>
   getArtifact (ex_ctx_region (Some ''us-west-2'')) 1700000000000 ex_req ex_stored =
     (Redirect 303 (Some ''https://pub.s3/T1/0/public/log.txt''), ex_stored) \<and>
   getArtifact (ex_ctx_region (Some ''eu-west-1'')) 1700000000000 ex_req ex_stored =
     (Redirect 303
        (Some ''https://mirror.test/v1/redirect/s3/eu-west-1/https%3A%2F%2Fpub.s3%2FT1%2F0%2Fpublic%2Flog.txt''),
      ex_stored) \<and>
   getArtifact (ex_ctx_region (Some ''eu-west-1'')) 1700000000000
       (ex_req\<lparr>skip_cache_header := Some ''TRUE''\<rparr>) ex_stored =
     (Redirect 303 (Some ''https://cdn/T1/0/public/log.txt''), ex_stored)"
proof -
  have st: "Artifact ex_stored (''T1'', 0, ''public/log.txt'') = Some ex_s3"
    and ty: "artifact.storageType ex_s3 = ''s3''"
    by (simp_all add: ex_defs)
  have bk: "details.bucket (details ex_s3) = Some (s3bucket.bucket (publicBucket (ex_ctx_region g)))"
    and ne: "\<forall>p same. createGetUrl (publicBucket (ex_ctx_region g)) p same \<noteq> []"
    and ho: "cloudMirrorHost (ex_ctx_region g) \<noteq> []" for g
    by (auto simp: ex_defs no_details_def)
  have r0: "\<forall>g. getRegion (ex_ctx_region None) rq = Some g \<longrightarrow>
              CHR ''?'' \<notin> set g \<and> CHR ''#'' \<notin> set g" for rq
    by (simp add: ex_defs)
  have r1: "\<forall>g. getRegion (ex_ctx_region (Some ''us-west-2'')) rq = Some g \<longrightarrow>
              CHR ''?'' \<notin> set g \<and> CHR ''#'' \<notin> set g" for rq
    by (auto simp: ex_defs)
  have r2: "\<forall>g. getRegion (ex_ctx_region (Some ''eu-west-1'')) rq = Some g \<longrightarrow>
              CHR ''?'' \<notin> set g \<and> CHR ''#'' \<notin> set g" for rq
    by (auto simp: ex_defs)
  have a: "getArtifact (ex_ctx_region None) 1700000000000 ex_req ex_stored =
     (Redirect 303 (Some ''https://cdn/T1/0/public/log.txt''), ex_stored)"
    using public_s3_location [OF st ty bk ne ho r0, where rq = ex_req and now = 1700000000000]
    by (simp add: ex_defs url_defs no_details_def)
  have b: "getArtifact (ex_ctx_region (Some ''us-west-2'')) 1700000000000 ex_req ex_stored =
     (Redirect 303 (Some ''https://pub.s3/T1/0/public/log.txt''), ex_stored)"
    using public_s3_location [OF st ty bk ne ho r1, where rq = ex_req and now = 1700000000000]
    by (simp add: ex_defs url_defs no_details_def)
  have c: "getArtifact (ex_ctx_region (Some ''eu-west-1'')) 1700000000000 ex_req ex_stored =
     (Redirect 303
        (Some ''https://mirror.test/v1/redirect/s3/eu-west-1/https%3A%2F%2Fpub.s3%2FT1%2F0%2Fpublic%2Flog.txt''),
      ex_stored)"
    using public_s3_location [OF st ty bk ne ho r2, where rq = ex_req and now = 1700000000000]
    by (simp add: ex_defs url_defs no_details_def)
  have d: "getArtifact (ex_ctx_region (Some ''eu-west-1'')) 1700000000000
       (ex_req\<lparr>skip_cache_header := Some ''TRUE''\<rparr>) ex_stored =
     (Redirect 303 (Some ''https://cdn/T1/0/public/log.txt''), ex_stored)"
    using public_s3_location
      [OF st ty bk ne ho r2, where rq = "ex_req\<lparr>skip_cache_header := Some ''TRUE''\<rparr>"
         and now = 1700000000000]
    by (simp add: ex_defs url_defs no_details_def)
  from a b c d show ?thesis by blast
qed

subsection \<open>Error artifacts\<close>

lemma getArtifact_authorized:
  assumes "isPublic (params_name rq) \<or> satisfies rq (GetParams (params_name rq))"
  shows "getArtifact c now rq s =
           replyWithArtifact c now (params_taskId rq) (params_runId rq) (params_name rq) rq s"
  using assms by (auto simp: getArtifact_def Let_def)

lemma getLatestArtifact_authorized:
  assumes "isPublic (params_name rq) \<or> satisfies rq (GetParams (params_name rq))"
    and "Task s (params_taskId rq) = Some t" and "runs t \<noteq> []"
  shows "getLatestArtifact c now rq s =
           replyWithArtifact c now (params_taskId rq) (int (length (runs t)) - 1) (params_name rq) rq s"
  using assms by (auto simp: getLatestArtifact_def Let_def)

text \<open>
  Claim C5. A get that finds a stored artifact of storage type error answers with status
  403 and the JSON body made of the stored reason and message, and never with a
  redirect. This holds for replyWithArtifact, for getArtifact when the name is public or
  the scopes are satisfied, and for getLatestArtifact when moreover the task exists and
  the artifact is the one of its last run.
\<close>

theorem error_artifact_403:
  assumes "Artifact s (tid, rid, nm) = Some a"
    and "artifact.storageType a = ''error''"
  shows
   "replyWithArtifact c now tid rid nm rq s =
      (StatusJson 403 (reason (details a)) (message (details a)), s) \<and>
    (\<forall>code u. fst (replyWithArtifact c now tid rid nm rq s) \<noteq> Redirect code u) \<and>
    (tid = params_taskId rq \<and> rid = params_runId rq \<and> nm = params_name rq \<and>
     (isPublic nm \<or> satisfies rq (GetParams nm)) \<longrightarrow>
       getArtifact c now rq s = (StatusJson 403 (reason (details a)) (message (details a)), s)) \<and>
    (tid = params_taskId rq \<and> nm = params_name rq \<and>
     (isPublic nm \<or> satisfies rq (GetParams nm)) \<and>
     Task s tid = Some t \<and> runs t \<noteq> [] \<and> rid = int (length (runs t)) - 1 \<longrightarrow>
       getLatestArtifact c now rq s =
         (StatusJson 403 (reason (details a)) (message (details a)), s))"
proof -
  have r: "replyWithArtifact c now tid rid nm rq s =
      (StatusJson 403 (reason (details a)) (message (details a)), s)"
    using assms by (simp add: replyWithArtifact_def)
  show ?thesis
    using r getArtifact_authorized [of rq c now s] getLatestArtifact_authorized [of rq s t c now]
    by auto
qed

theorem error_artifact_403_witness:
  "getArtifact ex_ctx 1700000000000 ex_get_req (ex_stored_as ex_error) =
     (StatusJson 403 (Some ''r'') (Some ''m''), ex_stored_as ex_error) \<and>
   getLatestArtifact ex_ctx 1700000000000 ex_get_req (ex_stored_as ex_error) =
     (StatusJson 403 (Some ''r'') (Some ''m''), ex_stored_as ex_error)"
  using error_artifact_403
    [where s = "ex_stored_as ex_error" and tid = "''T1''" and rid = 0 and nm = "''public/missing.txt''"
       and a = ex_error and rq = ex_get_req and c = ex_ctx and now = 1700000000000 and t = ex_task]
  by (simp add: ex_defs isPublic_def no_details_def)

subsection \<open>A stored artifact of an unknown storage type\<close>

text \<open>
  Claim C9 says that a get finding a stored artifact whose storage type is none of s3,
  azure, reference and error reports the error with the artifact's JSON to the monitor
  and answers InternalError. The handler does not: the expression that builds the
  message reads \<^verbatim>\<open>artifacts.storageType\<close>, and \<^verbatim>\<open>artifacts\<close> is not declared, so a
  ReferenceError leaves the function, the monitor is not called and its log is as
  before.
\<close>

theorem unknown_storageType_throws:
  assumes "Artifact s (tid, rid, nm) = Some a"
    and "artifact.storageType a \<noteq> ''s3''" and "artifact.storageType a \<noteq> ''azure''"
    and "artifact.storageType a \<noteq> ''reference''" and "artifact.storageType a \<noteq> ''error''"
  shows
   "replyWithArtifact c now tid rid nm rq s = (Throw (ReferenceError ''artifacts is not defined''), s) \<and>
    reported (snd (replyWithArtifact c now tid rid nm rq s)) = reported s \<and>
    (tid = params_taskId rq \<and> rid = params_runId rq \<and> nm = params_name rq \<and>
     (isPublic nm \<or> satisfies rq (GetParams nm)) \<longrightarrow>
       getArtifact c now rq s = (Throw (ReferenceError ''artifacts is not defined''), s))"
proof -
  have r: "replyWithArtifact c now tid rid nm rq s =
      (Throw (ReferenceError ''artifacts is not defined''), s)"
    using assms by (simp add: replyWithArtifact_def)
  show ?thesis using r getArtifact_authorized [of rq c now s] by auto
qed

theorem unknown_storageType_throws_witness:
  "getArtifact ex_ctx 1700000000000 ex_get_req (ex_stored_as ex_unknown) =
     (Throw (ReferenceError ''artifacts is not defined''), ex_stored_as ex_unknown) \<and>
   reported (snd (getArtifact ex_ctx 1700000000000 ex_get_req (ex_stored_as ex_unknown))) = []"
  using unknown_storageType_throws
    [where s = "ex_stored_as ex_unknown" and tid = "''T1''" and rid = 0 and nm = "''public/missing.txt''"
       and a = ex_unknown and rq = ex_get_req and c = ex_ctx and now = 1700000000000]
  by (simp add: ex_defs isPublic_def)

subsection \<open>The latest run\<close>

text \<open>
  Claim C8, as the handlers have it. listLatestArtifacts, and getLatestArtifact when the
  name is public or the scopes are satisfied, answer ResourceNotFound when the task does
  not exist and when it has no runs, and otherwise work on the run whose runId is the
  number of runs minus one. getLatestArtifact checks the authorization before it loads
  the task: a request for a name that is not public and whose scopes are not satisfied
  ends there, whether the task exists or not.
\<close>

theorem latest_run:
  "(Task s (params_taskId rq) = None \<longrightarrow>
      listLatestArtifacts c rq s =
        (ReportError ''ResourceNotFound'' ''No task with taskId: {{taskId}} found''
           (TaskId (params_taskId rq)), s)) \<and>
   (Task s (params_taskId rq) = Some t \<and> runs t = [] \<longrightarrow>
      listLatestArtifacts c rq s =
        (ReportError ''ResourceNotFound'' ''Task with taskId: {{taskId}} does not have any runs''
           (TaskId (params_taskId rq)), s)) \<and>
   (Task s (params_taskId rq) = Some t \<and> runs t \<noteq> [] \<longrightarrow>
      listLatestArtifacts c rq s =
        (list_reply (query c (Artifact s) (params_taskId rq) (int (length (runs t)) - 1)
                       (continuation_of rq) (limit_of rq)), s)) \<and>
   ((isPublic (params_name rq) \<or> satisfies rq (GetParams (params_name rq))) \<and>
    Task s (params_taskId rq) = None \<longrightarrow>
      getLatestArtifact c now rq s =
        (ReportError ''ResourceNotFound'' ''Task not found'' Empty, s)) \<and>
   ((isPublic (params_name rq) \<or> satisfies rq (GetParams (params_name rq))) \<and>
    Task s (params_taskId rq) = Some t \<and> runs t = [] \<longrightarrow>
      getLatestArtifact c now rq s =
        (ReportError ''ResourceNotFound'' ''Task doesn't have any runs'' Empty, s)) \<and>
   ((isPublic (params_name rq) \<or> satisfies rq (GetParams (params_name rq))) \<and>
    Task s (params_taskId rq) = Some t \<and> runs t \<noteq> [] \<longrightarrow>
      getLatestArtifact c now rq s =
        replyWithArtifact c now (params_taskId rq) (int (length (runs t)) - 1) (params_name rq) rq s) \<and>
   (\<not> isPublic (params_name rq) \<and> \<not> satisfies rq (GetParams (params_name rq)) \<longrightarrow>
      getLatestArtifact c now rq s = (Denied, s))"
  by (auto simp: listLatestArtifacts_def getLatestArtifact_def Let_def)

theorem latest_run_witness:
  "listLatestArtifacts ex_ctx (ex_get_req\<lparr>params_taskId := ''T9''\<rparr>) ex_state =
     (ReportError ''ResourceNotFound'' ''No task with taskId: {{taskId}} found'' (TaskId ''T9''), ex_state) \<and>
   listLatestArtifacts ex_ctx ex_get_req (ex_state\<lparr>Task := [''T1'' \<mapsto> ex_task\<lparr>runs := []\<rparr>]\<rparr>) =
     (ReportError ''ResourceNotFound'' ''Task with taskId: {{taskId}} does not have any runs''
        (TaskId ''T1''), ex_state\<lparr>Task := [''T1'' \<mapsto> ex_task\<lparr>runs := []\<rparr>]\<rparr>) \<and>
   listLatestArtifacts ex_ctx ex_get_req (ex_state_with ex_run) =
     (list_reply (query ex_ctx (Artifact (ex_state_with ex_run)) ''T1'' 0 None 1000),
      ex_state_with ex_run) \<and>
   getLatestArtifact ex_ctx 1700000000000 (ex_get_req\<lparr>params_taskId := ''T9''\<rparr>) ex_state =
     (ReportError ''ResourceNotFound'' ''Task not found'' Empty, ex_state) \<and>
   getLatestArtifact ex_ctx 1700000000000 ex_get_req
       (ex_state\<lparr>Task := [''T1'' \<mapsto> ex_task\<lparr>runs := []\<rparr>]\<rparr>) =
     (ReportError ''ResourceNotFound'' ''Task doesn't have any runs'' Empty,
      ex_state\<lparr>Task := [''T1'' \<mapsto> ex_task\<lparr>runs := []\<rparr>]\<rparr>) \<and>
   getLatestArtifact ex_ctx 1700000000000 ex_get_req (ex_state_with ex_run) =
     replyWithArtifact ex_ctx 1700000000000 ''T1'' 0 ''public/missing.txt'' ex_get_req
       (ex_state_with ex_run) \<and>
   getLatestArtifact ex_ctx 1700000000000
       (ex_req\<lparr>params_name := ''private/log.txt'', satisfies := (\<lambda>p. False)\<rparr>)
       (ex_state_with ex_run) = (Denied, ex_state_with ex_run)"
proof -
  have a: "listLatestArtifacts ex_ctx (ex_get_req\<lparr>params_taskId := ''T9''\<rparr>) ex_state =
     (ReportError ''ResourceNotFound'' ''No task with taskId: {{taskId}} found'' (TaskId ''T9''), ex_state) \<and>
     getLatestArtifact ex_ctx 1700000000000 (ex_get_req\<lparr>params_taskId := ''T9''\<rparr>) ex_state =
     (ReportError ''ResourceNotFound'' ''Task not found'' Empty, ex_state)"
    using latest_run
      [where c = ex_ctx and now = 1700000000000 and rq = "ex_get_req\<lparr>params_taskId := ''T9''\<rparr>"
         and s = ex_state]
    by (simp add: ex_defs isPublic_def)
  have b: "listLatestArtifacts ex_ctx ex_get_req (ex_state\<lparr>Task := [''T1'' \<mapsto> ex_task\<lparr>runs := []\<rparr>]\<rparr>) =
     (ReportError ''ResourceNotFound'' ''Task with taskId: {{taskId}} does not have any runs''
        (TaskId ''T1''), ex_state\<lparr>Task := [''T1'' \<mapsto> ex_task\<lparr>runs := []\<rparr>]\<rparr>) \<and>
     getLatestArtifact ex_ctx 1700000000000 ex_get_req
       (ex_state\<lparr>Task := [''T1'' \<mapsto> ex_task\<lparr>runs := []\<rparr>]\<rparr>) =
     (ReportError ''ResourceNotFound'' ''Task doesn't have any runs'' Empty,
      ex_state\<lparr>Task := [''T1'' \<mapsto> ex_task\<lparr>runs := []\<rparr>]\<rparr>)"
    using latest_run
      [where c = ex_ctx and now = 1700000000000 and rq = ex_get_req
         and s = "ex_state\<lparr>Task := [''T1'' \<mapsto> ex_task\<lparr>runs := []\<rparr>]\<rparr>"
         and t = "ex_task\<lparr>runs := []\<rparr>"]
    by (simp add: ex_defs isPublic_def)
  have c: "listLatestArtifacts ex_ctx ex_get_req (ex_state_with ex_run) =
     (list_reply (query ex_ctx (Artifact (ex_state_with ex_run)) ''T1'' 0 None 1000),
      ex_state_with ex_run) \<and>
     getLatestArtifact ex_ctx 1700000000000 ex_get_req (ex_state_with ex_run) =
     replyWithArtifact ex_ctx 1700000000000 ''T1'' 0 ''public/missing.txt'' ex_get_req
       (ex_state_with ex_run)"
    using latest_run
      [where c = ex_ctx and now = 1700000000000 and rq = ex_get_req
         and s = "ex_state_with ex_run" and t = "ex_task_with ex_run"]
    by (simp add: ex_defs isPublic_def continuation_of_def limit_of_def)
  have d: "getLatestArtifact ex_ctx 1700000000000
       (ex_req\<lparr>params_name := ''private/log.txt'', satisfies := (\<lambda>p. False)\<rparr>)
       (ex_state_with ex_run) = (Denied, ex_state_with ex_run)"
    using latest_run
      [where c = ex_ctx and now = 1700000000000
         and rq = "ex_req\<lparr>params_name := ''private/log.txt'', satisfies := (\<lambda>p. False)\<rparr>"
         and s = "ex_state_with ex_run"]
    by (simp add: ex_defs isPublic_def)
  from a b c d show ?thesis by blast
qed

text \<open>
  The task does not exist, the name is not public and the scopes are not satisfied: the
  answer is the rejection, not ResourceNotFound.
\<close>

theorem unauthorized_latest_counterexample:
  "Task ex_state ''T9'' = None \<and>
   getLatestArtifact ex_ctx 1700000000000
       (ex_req\<lparr>params_taskId := ''T9'', params_name := ''private/x'', satisfies := (\<lambda>p. False)\<rparr>)
       ex_state = (Denied, ex_state)"
  by (simp add: getLatestArtifact_def ex_defs isPublic_def)

end
